theory Spec2Isabelle
  imports Complex_Main "HOL-Library.Log_Nat"
begin

section \<open>Python strings\<close>

text \<open>
  A Python \<^verbatim>\<open>str\<close> is a sequence of Unicode code points: slicing, \<^verbatim>\<open>startswith\<close>,
  \<^verbatim>\<open>replace\<close> and \<^verbatim>\<open>strip\<close> all count code points. It is modelled as the list of its
  code points; \<open>py\<close> turns an ASCII literal into that representation.
\<close>

type_synonym pystr = "nat list"

definition py :: "string \<Rightarrow> pystr" where
  "py s = map of_char s"

text \<open>
  \<^verbatim>\<open>str.isspace\<close> for one code point, as CPython's Unicode database has it: the characters
  that \<^verbatim>\<open>str.strip()\<close> without argument removes.
\<close>

definition isspace :: "nat \<Rightarrow> bool" where
  "isspace c =
     ((9 \<le> c \<and> c \<le> 13) \<or> (28 \<le> c \<and> c \<le> 32) \<or> c = 133 \<or> c = 160 \<or> c = 5760
      \<or> (8192 \<le> c \<and> c \<le> 8202) \<or> c = 8232 \<or> c = 8233 \<or> c = 8239 \<or> c = 8287
      \<or> c = 12288)"

definition strip :: "pystr \<Rightarrow> pystr" where
  "strip s = rev (dropWhile isspace (rev (dropWhile isspace s)))"

definition startswith :: "pystr \<Rightarrow> pystr \<Rightarrow> bool" where
  "startswith s p = (take (length p) s = p)"

text \<open>
  \<^verbatim>\<open>s.replace(old, '')\<close>: every non-overlapping occurrence of \<open>old\<close>, found from the left, is
  removed. With an empty \<open>old\<close> Python inserts the (empty) replacement between the
  characters, which leaves \<open>s\<close> as it is.
\<close>

fun str_remove :: "pystr \<Rightarrow> pystr \<Rightarrow> pystr" where
  "str_remove old [] = []"
| "str_remove old (c # cs) =
     (if old \<noteq> [] \<and> take (length old) (c # cs) = old
      then str_remove old (drop (length old) (c # cs))
      else c # str_remove old cs)"

text \<open>\<^verbatim>\<open>sub in s\<close> for two strings: \<open>sub\<close> occurs in \<open>s\<close> as a contiguous piece.\<close>

fun str_contains :: "pystr \<Rightarrow> pystr \<Rightarrow> bool" where
  "str_contains [] sub = (sub = [])"
| "str_contains (c # cs) sub = (take (length sub) (c # cs) = sub \<or> str_contains cs sub)"

text \<open>\<^verbatim>\<open>str(n)\<close> for an integer, as an f-string renders it: decimal digits, a minus sign first.\<close>

fun digits :: "nat \<Rightarrow> pystr" where
  "digits n = (if n < 10 then [48 + n] else digits (n div 10) @ [48 + n mod 10])"

declare digits.simps [simp del]

definition str_int :: "int \<Rightarrow> pystr" where
  "str_int i = (if i < 0 then 45 # digits (nat (- i)) else digits (nat i))"

section \<open>Python floats\<close>

text \<open>
  A Python \<^verbatim>\<open>float\<close> is an IEEE 754 double: a value is kept here by the rational number it
  stands for. Every operation on floats gives the double nearest to the exact result, a
  tie going to the double whose last bit is 0. \<open>exponent x\<close> is the power of two at or
  just below the magnitude of \<open>x\<close>, and a double near \<open>x\<close> is a whole multiple of
  \<open>2 powi (exponent x - 52)\<close>. The exponent range of a double is not limited here: the
  differences of two \<^verbatim>\<open>datetime\<close>s stay far inside it.
\<close>

definition round_half_even :: "rat \<Rightarrow> int" where
  "round_half_even x =
     (let f = \<lfloor>x\<rfloor>; d = x - of_int f
      in if d < 1 / 2 then f else if 1 / 2 < d then f + 1 else if even f then f else f + 1)"

definition exponent :: "rat \<Rightarrow> int" where
  "exponent x =
     (case quotient_of \<bar>x\<bar> of
        (p, q) \<Rightarrow> (let k = bitlen p - bitlen q in if 2 powi k \<le> \<bar>x\<bar> then k else k - 1))"

definition round_double :: "rat \<Rightarrow> rat" where
  "round_double x =
     (if x = 0 then 0
      else (let ulp = 2 powi (exponent x - 52) in of_int (round_half_even (x / ulp)) * ulp))"

section \<open>The inference call: \<^verbatim>\<open>get_ai_response\<close>\<close>

subsection \<open>Exceptions and the values of a parsed JSON body\<close>

text \<open>
  The exceptions the body of \<^verbatim>\<open>get_ai_response\<close> can meet. \<open>ClientConnectorError\<close> stands for
  \<^verbatim>\<open>aiohttp.ClientConnectorError\<close> and its subclasses, the class the first handler names.
  \<open>TypeError\<close>, \<open>KeyError\<close>, \<open>IndexError\<close> and \<open>AttributeError\<close> are raised by Python itself
  when the parsed body is inspected. \<open>OtherException\<close> is any other instance of
  \<^verbatim>\<open>Exception\<close>, with its text. \<open>CancelledError\<close> stands for the exceptions that are not
  instances of \<^verbatim>\<open>Exception\<close>: \<^verbatim>\<open>asyncio.CancelledError\<close>, raised at an \<^verbatim>\<open>await\<close> when the task
  of the handler is cancelled, and the other direct subclasses of \<^verbatim>\<open>BaseException\<close>.
\<close>

datatype py_exception =
    ClientConnectorError
  | TypeError
  | KeyError
  | IndexError
  | AttributeError
  | OtherException pystr
  | CancelledError

fun is_exception :: "py_exception \<Rightarrow> bool" where
  "is_exception CancelledError = False"
| "is_exception ClientConnectorError = True"
| "is_exception TypeError = True"
| "is_exception KeyError = True"
| "is_exception IndexError = True"
| "is_exception AttributeError = True"
| "is_exception (OtherException text) = True"

text \<open>
  What \<^verbatim>\<open>response.json()\<close> can return. A number is kept by its value (only whether it is
  zero matters below); \<open>JObj\<close> lists the items of the parsed \<^verbatim>\<open>dict\<close>.
\<close>

datatype json =
    JNull
  | JBool bool
  | JNum rat
  | JStr pystr
  | JArr "json list"
  | JObj "(pystr \<times> json) list"

definition bind_exn :: "py_exception + 'a \<Rightarrow> ('a \<Rightarrow> py_exception + 'b) \<Rightarrow> py_exception + 'b" where
  "bind_exn r f = (case r of Inl e \<Rightarrow> Inl e | Inr x \<Rightarrow> f x)"

text \<open>Truth value of an object, as \<^verbatim>\<open>and\<close> tests it.\<close>

fun truthy :: "json \<Rightarrow> bool" where
  "truthy JNull = False"
| "truthy (JBool b) = b"
| "truthy (JNum r) = (r \<noteq> 0)"
| "truthy (JStr s) = (s \<noteq> [])"
| "truthy (JArr xs) = (xs \<noteq> [])"
| "truthy (JObj kvs) = (kvs \<noteq> [])"

text \<open>
  \<^verbatim>\<open>key in x\<close> for a string \<open>key\<close>: key membership for a dict, element membership for a
  list, substring test for a string, and \<^verbatim>\<open>TypeError\<close> for anything else.
\<close>

fun py_in :: "pystr \<Rightarrow> json \<Rightarrow> py_exception + bool" where
  "py_in key (JObj kvs) = Inr (key \<in> set (map fst kvs))"
| "py_in key (JArr xs) = Inr (JStr key \<in> set xs)"
| "py_in key (JStr s) = Inr (str_contains s key)"
| "py_in key JNull = Inl TypeError"
| "py_in key (JBool b) = Inl TypeError"
| "py_in key (JNum r) = Inl TypeError"

text \<open>\<^verbatim>\<open>x[key]\<close> for a string \<open>key\<close>: only a dict can be indexed by a string.\<close>

fun py_getitem :: "json \<Rightarrow> pystr \<Rightarrow> py_exception + json" where
  "py_getitem (JObj kvs) key = (case map_of kvs key of None \<Rightarrow> Inl KeyError | Some v \<Rightarrow> Inr v)"
| "py_getitem (JArr xs) key = Inl TypeError"
| "py_getitem (JStr s) key = Inl TypeError"
| "py_getitem JNull key = Inl TypeError"
| "py_getitem (JBool b) key = Inl TypeError"
| "py_getitem (JNum r) key = Inl TypeError"

text \<open>
  \<^verbatim>\<open>x[0]\<close>: the first element of a list, the first character of a string; the keys of a
  parsed JSON object are strings, so \<^verbatim>\<open>0\<close> is never one of them.
\<close>

fun py_getitem0 :: "json \<Rightarrow> py_exception + json" where
  "py_getitem0 (JArr xs) = (case xs of [] \<Rightarrow> Inl IndexError | x # _ \<Rightarrow> Inr x)"
| "py_getitem0 (JStr s) = (case s of [] \<Rightarrow> Inl IndexError | c # _ \<Rightarrow> Inr (JStr [c]))"
| "py_getitem0 (JObj kvs) = Inl KeyError"
| "py_getitem0 JNull = Inl TypeError"
| "py_getitem0 (JBool b) = Inl TypeError"
| "py_getitem0 (JNum r) = Inl TypeError"

text \<open>\<^verbatim>\<open>x.strip()\<close>: only a string has the method.\<close>

fun py_strip :: "json \<Rightarrow> py_exception + pystr" where
  "py_strip (JStr s) = Inr (strip s)"
| "py_strip (JArr xs) = Inl AttributeError"
| "py_strip (JObj kvs) = Inl AttributeError"
| "py_strip JNull = Inl AttributeError"
| "py_strip (JBool b) = Inl AttributeError"
| "py_strip (JNum r) = Inl AttributeError"

subsection \<open>The request and what the HTTP layer does with it\<close>

text \<open>
  The request \<^verbatim>\<open>session.post\<close> sends: the endpoint, the content type header, the
  role-tagged messages of the payload and the temperature (\<^verbatim>\<open>0.7\<close>).
\<close>

record request =
  url :: pystr
  content_type :: pystr
  messages :: "(pystr \<times> pystr) list"
  temperature :: rat

definition build_request :: "pystr \<Rightarrow> pystr \<Rightarrow> request" where
  "build_request endpoint prompt =
     \<lparr> url = endpoint,
       content_type = py ''application/json'',
       messages = [(py ''system'', py ''You are a helpful assistant.''), (py ''user'', prompt)],
       temperature = 7 / 10 \<rparr>"

text \<open>
  What the HTTP layer (\<^verbatim>\<open>aiohttp\<close>) does with a request: opening the session or posting
  raises, or a response arrives with its status, the outcome of \<^verbatim>\<open>await response.json()\<close>
  and the outcome of \<^verbatim>\<open>await response.text()\<close> (each may raise in turn). Leaving the two
  \<^verbatim>\<open>async with\<close> blocks is taken not to raise.
\<close>

datatype http_behaviour =
    Raises py_exception
  | Responds int "py_exception + json" "py_exception + pystr"

type_synonym http_layer = "request \<Rightarrow> http_behaviour"

text \<open>
  The four diagnostic lines \<^verbatim>\<open>get_ai_response\<close> prints (lines 57, 61, 65 and 68), each with
  the values its f-string shows, and what standard output does with a line: \<^verbatim>\<open>print\<close>
  returns, or raises (the stream is closed, or the line cannot be encoded).
\<close>

datatype log_line =
    UnexpectedFormat json
  | ApiError int pystr
  | CouldNotConnect
  | UnexpectedError py_exception

type_synonym stdout_behaviour = "log_line \<Rightarrow> py_exception option"

definition py_print :: "stdout_behaviour \<Rightarrow> log_line \<Rightarrow> py_exception + unit" where
  "py_print out line = (case out line of None \<Rightarrow> Inr () | Some e \<Rightarrow> Inl e)"

subsection \<open>The return sites of \<^verbatim>\<open>get_ai_response\<close>\<close>

text \<open>
  \<^verbatim>\<open>get_ai_response\<close> returns a string at six places: the generated text, and five fixed
  messages. \<open>failure_kind\<close> names the five places, \<open>failure_text\<close> is the string literal
  returned at each (the f-string of line 62 for \<open>UpstreamError\<close>).
\<close>

datatype failure_kind =
    EndpointNotConfigured
  | ConnectionRefused
  | UpstreamError int
  | MalformedResponse
  | UnknownError

datatype ai_outcome = Text pystr | Failure failure_kind

fun failure_text :: "failure_kind \<Rightarrow> pystr" where
  "failure_text EndpointNotConfigured =
     py ''Error: The LM Studio API endpoint is not configured.''"
| "failure_text ConnectionRefused =
     py ''Sorry, I can'' @ [39] @ py ''t reach the AI at the moment. Please make sure the local server is running.''"
| "failure_text (UpstreamError status) =
     py ''Sorry, the AI service returned an error (Status: '' @ str_int status @ py '').''"
| "failure_text MalformedResponse =
     py ''Sorry, I received an unexpected response from the AI.''"
| "failure_text UnknownError =
     py ''An unexpected error occurred while trying to contact the AI.''"

fun render :: "ai_outcome \<Rightarrow> pystr" where
  "render (Text t) = t"
| "render (Failure k) = failure_text k"

text \<open>
  Line 54, the test of the expected keys, with the short-circuit of \<^verbatim>\<open>and\<close>: a conjunct
  that is false ends the test, a conjunct that raises ends it with the exception.
\<close>

definition has_expected_keys :: "json \<Rightarrow> py_exception + bool" where
  "has_expected_keys data =
     bind_exn (py_in (py ''choices'') data) (\<lambda>c1.
       if \<not> c1 then Inr False else
       bind_exn (py_getitem data (py ''choices'')) (\<lambda>choices.
         if \<not> truthy choices then Inr False else
         bind_exn (py_getitem0 choices) (\<lambda>first.
           bind_exn (py_in (py ''message'') first) (\<lambda>c3.
             if \<not> c3 then Inr False else
             bind_exn (py_getitem first (py ''message'')) (\<lambda>msg.
               py_in (py ''content'') msg)))))"

text \<open>Line 55: \<^verbatim>\<open>data["choices"][0]["message"]["content"].strip()\<close>.\<close>

definition generated_text :: "json \<Rightarrow> py_exception + pystr" where
  "generated_text data =
     bind_exn (py_getitem data (py ''choices'')) (\<lambda>choices.
       bind_exn (py_getitem0 choices) (\<lambda>first.
         bind_exn (py_getitem first (py ''message'')) (\<lambda>msg.
           bind_exn (py_getitem msg (py ''content'')) py_strip)))"

text \<open>Lines 49 to 62, the body of the \<^verbatim>\<open>try\<close>: what it returns, or the exception it raises.\<close>

definition post_prompt :: "pystr \<Rightarrow> stdout_behaviour \<Rightarrow> http_layer \<Rightarrow> pystr \<Rightarrow> py_exception + ai_outcome" where
  "post_prompt endpoint out http prompt =
     (case http (build_request endpoint prompt) of
        Raises e \<Rightarrow> Inl e
      | Responds status json_result text_result \<Rightarrow>
          if status = 200 then
            bind_exn json_result (\<lambda>data.
              bind_exn (has_expected_keys data) (\<lambda>ok.
                if ok then bind_exn (generated_text data) (\<lambda>t. Inr (Text t))
                else bind_exn (py_print out (UnexpectedFormat data)) (\<lambda>_.
                       Inr (Failure MalformedResponse))))
          else
            bind_exn text_result (\<lambda>error_text.
              bind_exn (py_print out (ApiError status error_text)) (\<lambda>_.
                Inr (Failure (UpstreamError status)))))"

text \<open>
  The two handlers of lines 64 to 69: the first catches \<^verbatim>\<open>ClientConnectorError\<close>, the
  second every other instance of \<^verbatim>\<open>Exception\<close>; an exception that is not one passes both
  and leaves the function. Each handler prints before it returns, and an exception raised
  by that \<^verbatim>\<open>print\<close> leaves the function too: nothing catches it.
\<close>

fun handle_exception :: "stdout_behaviour \<Rightarrow> py_exception \<Rightarrow> py_exception + ai_outcome" where
  "handle_exception out CancelledError = Inl CancelledError"
| "handle_exception out ClientConnectorError =
     bind_exn (py_print out CouldNotConnect) (\<lambda>_. Inr (Failure ConnectionRefused))"
| "handle_exception out e =
     bind_exn (py_print out (UnexpectedError e)) (\<lambda>_. Inr (Failure UnknownError))"

text \<open>
  The whole function, by return site. \<open>LM_STUDIO_ENDPOINT\<close> is the value of
  \<^verbatim>\<open>os.getenv\<close>: \<open>None\<close> when the variable is absent; \<^verbatim>\<open>not LM_STUDIO_ENDPOINT\<close> holds for
  \<open>None\<close> and for the empty string.
\<close>

definition get_ai_outcome :: "pystr option \<Rightarrow> stdout_behaviour \<Rightarrow> http_layer \<Rightarrow> pystr \<Rightarrow> py_exception + ai_outcome" where
  "get_ai_outcome LM_STUDIO_ENDPOINT out http prompt =
     (case LM_STUDIO_ENDPOINT of
        None \<Rightarrow> Inr (Failure EndpointNotConfigured)
      | Some endpoint \<Rightarrow>
          if endpoint = [] then Inr (Failure EndpointNotConfigured)
          else (case post_prompt endpoint out http prompt of
                  Inr r \<Rightarrow> Inr r
                | Inl e \<Rightarrow> handle_exception out e))"

text \<open>
  \<^verbatim>\<open>get_ai_response\<close> as its caller sees it: the string returned (\<open>Inr\<close>), or an
  exception that leaves the function (\<open>Inl\<close>). The caller gets a plain string and cannot
  tell a failure message from a generated text.
\<close>

definition get_ai_response :: "pystr option \<Rightarrow> stdout_behaviour \<Rightarrow> http_layer \<Rightarrow> pystr \<Rightarrow> py_exception + pystr" where
  "get_ai_response LM_STUDIO_ENDPOINT out http prompt =
     bind_exn (get_ai_outcome LM_STUDIO_ENDPOINT out http prompt) (\<lambda>r. Inr (render r))"

section \<open>The message handler: \<^verbatim>\<open>on_message\<close>\<close>

subsection \<open>Messages, the two global containers, what is sent\<close>

text \<open>
  What the handler reads of a \<^verbatim>\<open>discord.Message\<close>: the author's id (two users are equal
  when their ids are), the content, and the answer of the library call
  \<^verbatim>\<open>bot.user.mentioned_in(message)\<close>, which the gateway payload decides.
\<close>

record message =
  author :: int
  content :: pystr
  mentions_bot :: bool

text \<open>
  \<^verbatim>\<open>user_cooldowns\<close> (a dict from user id to a \<^verbatim>\<open>datetime\<close>) and
  \<^verbatim>\<open>users_awaiting_response\<close> (a set of user ids). A \<^verbatim>\<open>datetime\<close> is a whole number of
  microseconds, and so is the difference of two.
\<close>

record bot_state =
  user_cooldowns :: "int \<Rightarrow> int option"
  users_awaiting_response :: "int set"

text \<open>
  What \<^verbatim>\<open>message.channel.send\<close> is called with: the reply of line 133, a fixed notice with
  \<^verbatim>\<open>delete_after=10\<close>, or the cooldown notice of line 110 (also \<^verbatim>\<open>delete_after=10\<close>), whose
  text shows the remaining seconds with one decimal; the notice is kept by the number it
  shows, not by its rendering.
\<close>

datatype outbound =
    Reply pystr
  | Notice pystr
  | CooldownNotice rat

text \<open>The ways \<^verbatim>\<open>on_message\<close> leaves its admission part (lines 86 to 127).\<close>

datatype decision =
    Ignored
  | AlreadyInFlight
  | OnCooldown rat
  | EmptyPrompt
  | Admitted pystr

definition COOLDOWN_SECONDS :: int where
  "COOLDOWN_SECONDS = 15"

definition is_command :: "pystr \<Rightarrow> bool" where
  "is_command c = startswith c (py ''!ask'')"

definition mention_token :: "int \<Rightarrow> pystr" where
  "mention_token bot_id = py ''<@'' @ str_int bot_id @ py ''>''"

text \<open>
  \<^verbatim>\<open>timedelta.total_seconds()\<close> divides the whole number of microseconds by \<open>10^6\<close>, a true
  division of two integers: the result is the float nearest to the quotient. Line 109
  then subtracts that float from \<^verbatim>\<open>COOLDOWN_SECONDS\<close>, a second float operation.
\<close>

definition total_seconds :: "int \<Rightarrow> rat" where
  "total_seconds microseconds = round_double (of_int microseconds / 1000000)"

definition remaining_time :: "int \<Rightarrow> rat" where
  "remaining_time time_since_last_request =
     round_double (of_int COOLDOWN_SECONDS - total_seconds time_since_last_request)"

text \<open>
  Lines 106 to 109: with an entry \<open>last_request\<close> for the user and the clock at \<open>now\<close>, the time
  since the last request is compared with \<^verbatim>\<open>timedelta(seconds=COOLDOWN_SECONDS)\<close>, an exact
  comparison of two whole numbers of microseconds; inside the window the remaining time
  is computed.
\<close>

definition cooldown_remaining :: "int \<Rightarrow> int option \<Rightarrow> rat option" where
  "cooldown_remaining now entry =
     (case entry of
        None \<Rightarrow> None
      | Some last_request \<Rightarrow>
          (let time_since_last_request = now - last_request
           in if time_since_last_request < COOLDOWN_SECONDS * 1000000
              then Some (remaining_time time_since_last_request)
              else None))"

text \<open>
  Lines 114 to 120. The branch for a mention is reached only when the content is not a
  command.
\<close>

definition extract_prompt :: "int \<Rightarrow> message \<Rightarrow> pystr" where
  "extract_prompt bot_id m =
     (if is_command (content m)
      then strip (drop (length (py ''!ask '')) (content m))
      else strip (str_remove (mention_token bot_id) (content m)))"

subsection \<open>Admission: lines 86 to 127\<close>

text \<open>
  From the entry of the handler to line 127 there is no suspension point on the path that
  admits, so the test of line 101 and the insertion of line 127 happen in one step. The
  three notices are sent by an \<^verbatim>\<open>await\<close> that is followed by \<^verbatim>\<open>return\<close>: whether the send
  succeeds or raises, the handler ends there with both containers as they were.
  \<open>bot_id\<close> is \<^verbatim>\<open>bot.user.id\<close>, \<open>now\<close> the value of \<^verbatim>\<open>datetime.now()\<close> at line 107.
\<close>

definition admit :: "int \<Rightarrow> int \<Rightarrow> message \<Rightarrow> bot_state \<Rightarrow> decision \<times> outbound list \<times> bot_state" where
  "admit bot_id now m s =
     (if author m = bot_id then (Ignored, [], s)
      else if \<not> is_command (content m) \<and> \<not> mentions_bot m then (Ignored, [], s)
      else if author m \<in> users_awaiting_response s then
        (AlreadyInFlight, [Notice (py ''Please wait for your previous request to complete.'')], s)
      else
        (case cooldown_remaining now (user_cooldowns s (author m)) of
           Some remaining \<Rightarrow> (OnCooldown remaining, [CooldownNotice remaining], s)
         | None \<Rightarrow>
             (let prompt = extract_prompt bot_id m
              in if prompt = [] then
                   (EmptyPrompt,
                    [Notice (py ''Please provide a prompt after the command or mention!'')], s)
                 else
                   (Admitted prompt, [],
                    s\<lparr>users_awaiting_response := insert (author m) (users_awaiting_response s)\<rparr>))))"

subsection \<open>The pipeline: lines 128 to 138\<close>

text \<open>
  What the surroundings do while the pipeline runs: entering the typing indicator may
  raise, the HTTP layer and standard output behave in some way, sending the reply may
  raise, and the clock shows \<open>completion_time\<close> at line 135.
\<close>

record pipeline_env =
  typing_enter :: "py_exception option"
  http :: http_layer
  stdout :: stdout_behaviour
  send_result :: "pystr \<Rightarrow> py_exception option"
  completion_time :: int

datatype pipeline_end = Returned | Raised py_exception

text \<open>
  The \<^verbatim>\<open>try\<close> block and its \<^verbatim>\<open>finally\<close>. Both containers are touched only after the last
  \<^verbatim>\<open>await\<close> (line 135, then line 138), or in \<^verbatim>\<open>finally\<close> alone when an \<^verbatim>\<open>await\<close> raised, so
  the pipeline changes them in one step at its end. \<^verbatim>\<open>set.remove\<close> raises \<^verbatim>\<open>KeyError\<close> when
  the element is missing.
\<close>

definition try_block :: "pystr option \<Rightarrow> pipeline_env \<Rightarrow> int \<Rightarrow> pystr \<Rightarrow> bot_state \<Rightarrow> pipeline_end \<times> outbound list \<times> bot_state" where
  "try_block LM_STUDIO_ENDPOINT env user_id prompt s =
     (case typing_enter env of
        Some e \<Rightarrow> (Raised e, [], s)
      | None \<Rightarrow>
          (case get_ai_response LM_STUDIO_ENDPOINT (stdout env) (http env) prompt of
             Inl e \<Rightarrow> (Raised e, [], s)
           | Inr ai_response \<Rightarrow>
               (case send_result env ai_response of
                  Some e \<Rightarrow> (Raised e, [], s)
                | None \<Rightarrow>
                    (Returned, [Reply ai_response],
                     s\<lparr>user_cooldowns := (user_cooldowns s)(user_id \<mapsto> completion_time env)\<rparr>))))"

definition pipeline :: "pystr option \<Rightarrow> pipeline_env \<Rightarrow> int \<Rightarrow> pystr \<Rightarrow> bot_state \<Rightarrow> pipeline_end \<times> outbound list \<times> bot_state" where
  "pipeline LM_STUDIO_ENDPOINT env user_id prompt s =
     (case try_block LM_STUDIO_ENDPOINT env user_id prompt s of
        (ending, sent, s1) \<Rightarrow>
          if user_id \<in> users_awaiting_response s1
          then (ending, sent,
                s1\<lparr>users_awaiting_response := users_awaiting_response s1 - {user_id}\<rparr>)
          else (Raised KeyError, sent, s1))"

text \<open>The handler run from entry to exit with nothing in between.\<close>

definition on_message :: "int \<Rightarrow> pystr option \<Rightarrow> pipeline_env \<Rightarrow> int \<Rightarrow> message \<Rightarrow> bot_state \<Rightarrow> decision \<times> pipeline_end \<times> outbound list \<times> bot_state" where
  "on_message bot_id LM_STUDIO_ENDPOINT env now m s =
     (case admit bot_id now m s of
        (Admitted prompt, sent, s1) \<Rightarrow>
          (case pipeline LM_STUDIO_ENDPOINT env (author m) prompt s1 of
             (ending, sent2, s2) \<Rightarrow> (Admitted prompt, ending, sent @ sent2, s2))
      | (d, sent, s1) \<Rightarrow> (d, Returned, sent, s1))"

subsection \<open>Handlers running side by side\<close>

text \<open>
  The event loop runs one handler per message and switches between them at their
  \<^verbatim>\<open>await\<close>s. By the two remarks above a handler acts on the containers at two moments:
  when its message arrives (admission) and when its pipeline ends. A run of the bot is a
  list of such moments; \<open>pending\<close> lists the admitted handlers that have not ended, each
  with its user and prompt, the newest first.
\<close>

datatype event =
    Arrive message int
  | Complete int pipeline_env

record config =
  shared :: bot_state
  pending :: "(int \<times> pystr) list"

definition initial :: config where
  "initial = \<lparr> shared = \<lparr> user_cooldowns = Map.empty, users_awaiting_response = {} \<rparr>,
               pending = [] \<rparr>"

fun step :: "int \<Rightarrow> pystr option \<Rightarrow> config \<Rightarrow> event \<Rightarrow> config" where
  "step bot_id ep c (Arrive m now) =
     (case admit bot_id now m (shared c) of
        (Admitted prompt, sent, s1) \<Rightarrow> \<lparr> shared = s1, pending = (author m, prompt) # pending c \<rparr>
      | (d, sent, s1) \<Rightarrow> c\<lparr>shared := s1\<rparr>)"
| "step bot_id ep c (Complete user_id env) =
     (case map_of (pending c) user_id of
        None \<Rightarrow> c
      | Some prompt \<Rightarrow>
          \<lparr> shared = snd (snd (pipeline ep env user_id prompt (shared c))),
            pending = remove1 (user_id, prompt) (pending c) \<rparr>)"

definition run :: "int \<Rightarrow> pystr option \<Rightarrow> event list \<Rightarrow> config" where
  "run bot_id ep events = foldl (step bot_id ep) initial events"

section \<open>Start of the process: the \<^verbatim>\<open>__main__\<close> block\<close>

text \<open>
  Lines 142 to 148. The two configuration values are what \<^verbatim>\<open>os.getenv\<close> returned (\<open>None\<close>
  for an absent variable). The block prints or calls \<^verbatim>\<open>bot.run\<close>; it never calls
  \<^verbatim>\<open>sys.exit\<close> and raises nothing itself, so after a print the interpreter reaches the end of
  the script and exits with status 0. \<open>bot_run\<close> gives the status the process ends with
  once \<^verbatim>\<open>bot.run(token)\<close> has returned or raised.
\<close>

record process_end =
  printed :: "pystr list"
  bot_run_with :: "pystr option"
  exit_status :: int

definition script_main :: "pystr option \<Rightarrow> pystr option \<Rightarrow> (pystr \<Rightarrow> int) \<Rightarrow> process_end" where
  "script_main DISCORD_TOKEN LM_STUDIO_ENDPOINT bot_run =
     (case DISCORD_TOKEN of
        None \<Rightarrow>
          \<lparr> printed = [py ''FATAL ERROR: DISCORD_TOKEN is not set in the .env file.''],
            bot_run_with = None, exit_status = 0 \<rparr>
      | Some token \<Rightarrow>
          (case LM_STUDIO_ENDPOINT of
             None \<Rightarrow>
               \<lparr> printed = [py ''FATAL ERROR: LM_STUDIO_ENDPOINT is not set in the .env file.''],
                 bot_run_with = None, exit_status = 0 \<rparr>
           | Some endpoint \<Rightarrow>
               \<lparr> printed = [], bot_run_with = Some token, exit_status = bot_run token \<rparr>))"

section \<open>Notions used to state the properties\<close>

text \<open>
  The admission rules as a list read from the top, the first rule that applies giving the
  decision: own message, no trigger, request in progress, cooldown, empty prompt; a
  message that no rule rejects is admitted with its prompt.
\<close>

fun first_rule :: "'a option list \<Rightarrow> 'a \<Rightarrow> 'a" where
  "first_rule [] otherwise = otherwise"
| "first_rule (None # rules) otherwise = first_rule rules otherwise"
| "first_rule (Some d # rules) otherwise = d"

definition rule :: "bool \<Rightarrow> 'a \<Rightarrow> 'a option" where
  "rule applies d = (if applies then Some d else None)"

definition admission_rules :: "int \<Rightarrow> int \<Rightarrow> message \<Rightarrow> bot_state \<Rightarrow> decision" where
  "admission_rules bot_id now m s =
     first_rule
       [rule (author m = bot_id) Ignored,
        rule (\<not> is_command (content m) \<and> \<not> mentions_bot m) Ignored,
        rule (author m \<in> users_awaiting_response s) AlreadyInFlight,
        map_option OnCooldown (cooldown_remaining now (user_cooldowns s (author m))),
        rule (extract_prompt bot_id m = []) EmptyPrompt]
       (Admitted (extract_prompt bot_id m))"

text \<open>
  The content of a triggering message with its trigger marker and the surrounding
  whitespace taken off: the marker is the command word for a command, the self-mention
  token otherwise.
\<close>

definition stripped_content :: "int \<Rightarrow> message \<Rightarrow> pystr" where
  "stripped_content bot_id m =
     (if is_command (content m)
      then strip (drop (length (py ''!ask'')) (content m))
      else strip (str_remove (mention_token bot_id) (content m)))"


text \<open>A time difference in microseconds, in seconds, as the exact quotient.\<close>

definition seconds :: "int \<Rightarrow> rat" where
  "seconds d = of_int d / 1000000"

text \<open>
  The set of users awaiting a response and the handlers in progress agree: the set holds
  the users of the pending handlers, and no user has two.
\<close>

definition in_flight_matches :: "config \<Rightarrow> bool" where
  "in_flight_matches c =
     (users_awaiting_response (shared c) = fst ` set (pending c) \<and> distinct (map fst (pending c)))"

text \<open>
  The moment of an event on the clock \<^verbatim>\<open>datetime.now()\<close> reads, and runs during which that
  clock never goes back.
\<close>

fun event_time :: "event \<Rightarrow> int" where
  "event_time (Arrive m now) = now"
| "event_time (Complete user_id env) = completion_time env"

definition clock_forward :: "event list \<Rightarrow> bool" where
  "clock_forward events = sorted (map event_time events)"

section \<open>Concrete surroundings\<close>

definition example_endpoint :: "pystr option" where
  "example_endpoint = Some (py ''http://localhost:1234/v1/chat/completions'')"

definition http_refused :: http_layer where
  "http_refused req = Raises ClientConnectorError"




definition http_hi :: http_layer where
  "http_hi req =
     Responds 200
       (Inr (JObj [(py ''choices'',
          JArr [JObj [(py ''message'',
            JObj [(py ''role'', JStr (py ''assistant'')), (py ''content'', JStr (py '' hi''))])]])]))
       (Inr [])"


definition quiet :: stdout_behaviour where
  "quiet line = None"


definition delivering :: "http_layer \<Rightarrow> int \<Rightarrow> pipeline_env" where
  "delivering h t =
     \<lparr> typing_enter = None, http = h, stdout = quiet, send_result = (\<lambda>text. None),
       completion_time = t \<rparr>"

definition send_failing :: "http_layer \<Rightarrow> int \<Rightarrow> pipeline_env" where
  "send_failing h t =
     \<lparr> typing_enter = None, http = h, stdout = quiet,
       send_result = (\<lambda>text. Some (OtherException (py ''HTTPException''))),
       completion_time = t \<rparr>"

definition ask :: "int \<Rightarrow> pystr \<Rightarrow> message" where
  "ask u text = \<lparr> author = u, content = text, mentions_bot = False \<rparr>"

definition mention :: "int \<Rightarrow> pystr \<Rightarrow> message" where
  "mention u text = \<lparr> author = u, content = text, mentions_bot = True \<rparr>"

definition exits_zero :: "pystr \<Rightarrow> int" where
  "exits_zero token = 0"

definition busy_since :: "int \<Rightarrow> int \<Rightarrow> bot_state" where
  "busy_since u t = \<lparr> user_cooldowns = [u \<mapsto> t], users_awaiting_response = {u} \<rparr>"

definition typing_failing :: "http_layer \<Rightarrow> int \<Rightarrow> pipeline_env" where
  "typing_failing h t =
     \<lparr> typing_enter = Some (OtherException (py ''Forbidden'')), http = h, stdout = quiet,
       send_result = (\<lambda>text. None), completion_time = t \<rparr>"

definition clock_set_back :: "event list" where
  "clock_set_back =
     [Arrive (ask 7 (py ''!ask hello'')) 0, Complete 7 (delivering http_hi 1000000),
      Arrive (ask 7 (py ''!ask more'')) 20000000]"

definition first_exchange :: "event list" where
  "first_exchange =
     [Arrive (ask 7 (py ''!ask hello'')) 0, Complete 7 (delivering http_hi 1000000)]"

definition request_under_way :: "event list" where
  "request_under_way = [Arrive (ask 7 (py ''!ask hello'')) 0]"

section \<open>Facts about the string operations\<close>






lemma dropWhile_all_iff: "(\<forall>x \<in> set (dropWhile P xs). P x) \<longleftrightarrow> (\<forall>x \<in> set xs. P x)"
proof
  assume d: "\<forall>x \<in> set (dropWhile P xs). P x"
  have "set xs = set (takeWhile P xs) \<union> set (dropWhile P xs)"
    by (metis set_append takeWhile_dropWhile_id)
  with d show "\<forall>x \<in> set xs. P x" by (auto dest: set_takeWhileD)
next
  assume "\<forall>x \<in> set xs. P x"
  then show "\<forall>x \<in> set (dropWhile P xs). P x" by (auto dest: set_dropWhileD)
qed

lemma strip_Nil_iff: "strip s = [] \<longleftrightarrow> (\<forall>c \<in> set s. isspace c)"
  by (simp add: strip_def dropWhile_all_iff)

lemma str_remove_self: "old \<noteq> [] \<Longrightarrow> str_remove old old = []"
  by (cases old) simp_all

section \<open>Facts about the float operations\<close>

lemma round_half_even_error: "\<bar>of_int (round_half_even y) - y\<bar> \<le> 1 / 2"
proof -
  have "of_int \<lfloor>y\<rfloor> \<le> y" "y < of_int \<lfloor>y\<rfloor> + 1" by linarith+
  then show ?thesis
    by (auto simp: round_half_even_def Let_def abs_le_iff)
qed

lemma bitlen_powi:
  fixes p :: int
  assumes "0 < p"
  shows "(2::rat) powi (bitlen p - 1) \<le> of_int p" and "of_int p < (2::rat) powi (bitlen p)"
proof -
  from assms have b: "1 \<le> bitlen p" by (auto simp: bitlen_alt_def)
  from bitlen_bounds [OF assms]
  have l: "2 ^ nat (bitlen p - 1) \<le> p" and u: "p < 2 ^ nat (bitlen p)" by simp_all
  from l have "(of_int (2 ^ nat (bitlen p - 1)) :: rat) \<le> of_int p"
    by (simp only: of_int_le_iff)
  with b show "(2::rat) powi (bitlen p - 1) \<le> of_int p"
    by (simp add: power_int_def)
  from u have "(of_int p :: rat) < of_int (2 ^ nat (bitlen p))"
    by (simp only: of_int_less_iff)
  with b show "of_int p < (2::rat) powi (bitlen p)"
    by (simp add: power_int_def)
qed

lemma exponent_bounds:
  assumes "x \<noteq> 0"
  shows "2 powi (exponent x) \<le> \<bar>x\<bar>" and "\<bar>x\<bar> < 2 powi (exponent x + 1)"
proof -
  obtain p q where pq: "quotient_of \<bar>x\<bar> = (p, q)" by (cases "quotient_of \<bar>x\<bar>") auto
  then have q: "0 < q" by (rule quotient_of_denom_pos)
  from pq have x: "\<bar>x\<bar> = of_int p / of_int q" by (rule quotient_of_div)
  from assms have "0 < \<bar>x\<bar>" by simp
  with x q have p: "0 < p" by (simp add: zero_less_divide_iff)
  let ?k = "bitlen p - bitlen q"
  note bp = bitlen_powi [OF p] and bq = bitlen_powi [OF q]
  have pos: "(0::rat) < 2 powi n" for n by simp
  have "of_int p / of_int q < (2::rat) powi (bitlen p) / 2 powi (bitlen q - 1)"
    using bp bq q p pos [of "bitlen q - 1"]
    by (intro frac_less) simp_all
  also have "\<dots> = 2 powi (?k + 1)"
    by (simp add: power_int_diff power_int_add)
  finally have up: "\<bar>x\<bar> < 2 powi (?k + 1)" using x by simp
  have "(2::rat) powi (bitlen p - 1) / 2 powi (bitlen q) < of_int p / of_int q"
    using bp bq q p pos [of "bitlen p - 1"]
    by (intro frac_less2) simp_all
  moreover have "(2::rat) powi (bitlen p - 1) / 2 powi (bitlen q) = 2 powi (?k - 1)"
    by (simp add: power_int_diff)
  ultimately have lo: "2 powi (?k - 1) < \<bar>x\<bar>" using x by simp
  have e: "exponent x = (if 2 powi ?k \<le> \<bar>x\<bar> then ?k else ?k - 1)"
    by (simp add: exponent_def pq Let_def)
  show "2 powi (exponent x) \<le> \<bar>x\<bar>"
    using lo by (simp add: e)
  show "\<bar>x\<bar> < 2 powi (exponent x + 1)"
    using up by (auto simp: e)
qed

lemma exponent_less:
  assumes "x \<noteq> 0" and "\<bar>x\<bar> < 2 powi m"
  shows "exponent x < m"
proof (rule ccontr)
  assume "\<not> exponent x < m"
  then have "m \<le> exponent x" by simp
  then have "(2::rat) powi m \<le> 2 powi (exponent x)"
    by (intro power_int_increasing) simp_all
  with exponent_bounds(1) [OF assms(1)] assms(2) show False by simp
qed

lemma round_double_error:
  "\<bar>round_double x - x\<bar> \<le> 2 powi (exponent x - 53)"
proof (cases "x = 0")
  case True
  then show ?thesis by (simp add: round_double_def)
next
  case False
  let ?u = "(2::rat) powi (exponent x - 52)"
  have u: "0 < ?u" by simp
  have "round_double x - x = (of_int (round_half_even (x / ?u)) - x / ?u) * ?u"
    using False u by (simp add: round_double_def Let_def algebra_simps)
  then have "\<bar>round_double x - x\<bar> = \<bar>of_int (round_half_even (x / ?u)) - x / ?u\<bar> * ?u"
    using u by (simp add: abs_mult)
  also have "\<dots> \<le> 1 / 2 * ?u"
    using round_half_even_error [of "x / ?u"] u by (intro mult_right_mono) simp_all
  also have "1 / 2 * ?u = 2 powi (exponent x - 53)"
  proof -
    have "(2::rat) powi (exponent x - 52) = 2 powi ((exponent x - 53) + 1)" by simp
    also have "\<dots> = 2 powi (exponent x - 53) * 2"
      by (subst power_int_add) simp_all
    finally show ?thesis by simp
  qed
  finally show ?thesis .
qed

lemma round_double_error_below:
  assumes "\<bar>x\<bar> < 2 powi m"
  shows "\<bar>round_double x - x\<bar> \<le> 2 powi (m - 54)"
proof (cases "x = 0")
  case True
  then show ?thesis by (simp add: round_double_def)
next
  case False
  from exponent_less [OF False assms] have "exponent x - 53 \<le> m - 54" by simp
  then have "(2::rat) powi (exponent x - 53) \<le> 2 powi (m - 54)"
    by (intro power_int_increasing) simp_all
  with round_double_error [of x] show ?thesis by linarith
qed

section \<open>What leaves the inference call\<close>

lemma is_exception_iff: "is_exception e = (e \<noteq> CancelledError)"
  by (cases e) simp_all
















section \<open>Start of the process\<close>

text \<open>
  Claim C2, as the code has it. The bot is started exactly when both configuration values
  are present. When the token or the endpoint is absent, \<^verbatim>\<open>bot.run\<close> is not called, one
  line starting with \<^verbatim>\<open>FATAL ERROR: \<close> is printed, and the process ends with exit status 0
  (not with a non-zero status).
\<close>

theorem missing_configuration_exit:
  "(bot_run_with (script_main DISCORD_TOKEN LM_STUDIO_ENDPOINT bot_run) = None)
     = (DISCORD_TOKEN = None \<or> LM_STUDIO_ENDPOINT = None) \<and>
   (DISCORD_TOKEN = None \<or> LM_STUDIO_ENDPOINT = None \<longrightarrow>
      (\<exists>line. printed (script_main DISCORD_TOKEN LM_STUDIO_ENDPOINT bot_run) = [line] \<and>
         startswith line (py ''FATAL ERROR: '')) \<and>
      exit_status (script_main DISCORD_TOKEN LM_STUDIO_ENDPOINT bot_run) = 0)"
  by (cases DISCORD_TOKEN; cases LM_STUDIO_ENDPOINT)
     (simp_all add: script_main_def startswith_def py_def)

theorem missing_configuration_exit_witness:
  "bot_run_with (script_main None example_endpoint exits_zero) = None \<and>
   printed (script_main None example_endpoint exits_zero)
     = [py ''FATAL ERROR: DISCORD_TOKEN is not set in the .env file.''] \<and>
   exit_status (script_main None example_endpoint exits_zero) = 0"
  using missing_configuration_exit [of None example_endpoint exits_zero]
  by (simp add: script_main_def)

text \<open>
  With the token absent, and with the token present and the endpoint absent, the exit
  status is 0: it is not non-zero.
\<close>

theorem missing_configuration_exit_status_zero:
  "\<not> exit_status (script_main None example_endpoint exits_zero) \<noteq> 0 \<and>
   \<not> exit_status (script_main (Some (py ''token'')) None exits_zero) \<noteq> 0"
  by (simp add: script_main_def)

section \<open>The failure messages\<close>

lemma get_ai_response_render:
  "get_ai_outcome ep out h prompt = Inr r \<Longrightarrow> get_ai_response ep out h prompt = Inr (render r)"
  by (simp add: get_ai_response_def bind_exn_def)

lemma get_ai_response_raised:
  "get_ai_outcome ep out h prompt = Inl e \<Longrightarrow> get_ai_response ep out h prompt = Inl e"
  by (simp add: get_ai_response_def bind_exn_def)









section \<open>Admission\<close>

lemma remaining_after_5: "remaining_time 5000000 = 10"
  by code_simp

lemma remaining_after_5_5: "remaining_time 5500000 = 19 / 2"
  by code_simp

lemma remaining_after_14_999999: "remaining_time 14999999 = 562949953 / 562949953421312"
  by code_simp

lemma length_command_word: "length (py ''!ask'') = 4"
  by (simp add: py_def)

lemma length_command_word_space: "length (py ''!ask '') = 5"
  by (simp add: py_def)

lemma is_command_take: "is_command c = (take 4 c = py ''!ask'')"
  by (simp add: is_command_def startswith_def length_command_word)

lemma extract_prompt_command:
  "is_command (content m) \<Longrightarrow> extract_prompt bot_id m = strip (drop 5 (content m))"
  by (simp add: extract_prompt_def length_command_word_space)

lemma admit_rules: "fst (admit bot_id now m s) = admission_rules bot_id now m s"
  by (simp add: admit_def admission_rules_def rule_def Let_def split: option.splits)

lemma admit_admitted:
  "author m \<noteq> bot_id \<Longrightarrow> is_command (content m) \<or> mentions_bot m \<Longrightarrow>
   author m \<notin> users_awaiting_response s \<Longrightarrow>
   cooldown_remaining now (user_cooldowns s (author m)) = None \<Longrightarrow>
   extract_prompt bot_id m \<noteq> [] \<Longrightarrow>
   admit bot_id now m s =
     (Admitted (extract_prompt bot_id m), [],
      s\<lparr>users_awaiting_response := insert (author m) (users_awaiting_response s)\<rparr>)"
  by (auto simp: admit_def Let_def)

lemma admit_empty:
  "author m \<noteq> bot_id \<Longrightarrow> is_command (content m) \<or> mentions_bot m \<Longrightarrow>
   author m \<notin> users_awaiting_response s \<Longrightarrow>
   cooldown_remaining now (user_cooldowns s (author m)) = None \<Longrightarrow>
   extract_prompt bot_id m = [] \<Longrightarrow>
   admit bot_id now m s =
     (EmptyPrompt, [Notice (py ''Please provide a prompt after the command or mention!'')], s)"
  by (auto simp: admit_def Let_def)

lemma admit_in_flight:
  "author m \<noteq> bot_id \<Longrightarrow> is_command (content m) \<or> mentions_bot m \<Longrightarrow>
   author m \<in> users_awaiting_response s \<Longrightarrow>
   admit bot_id now m s =
     (AlreadyInFlight, [Notice (py ''Please wait for your previous request to complete.'')], s)"
  by (auto simp: admit_def)

lemma admit_cooldown:
  "author m \<noteq> bot_id \<Longrightarrow> is_command (content m) \<or> mentions_bot m \<Longrightarrow>
   author m \<notin> users_awaiting_response s \<Longrightarrow>
   cooldown_remaining now (user_cooldowns s (author m)) = Some r \<Longrightarrow>
   admit bot_id now m s = (OnCooldown r, [CooldownNotice r], s)"
  by (auto simp: admit_def)

lemma admit_Admitted_iff:
  "fst (admit bot_id now m s) = Admitted p \<longleftrightarrow>
     author m \<noteq> bot_id \<and> (is_command (content m) \<or> mentions_bot m) \<and>
     author m \<notin> users_awaiting_response s \<and>
     cooldown_remaining now (user_cooldowns s (author m)) = None \<and>
     extract_prompt bot_id m = p \<and> p \<noteq> []"
  by (auto simp: admit_def Let_def split: option.splits)

lemma admit_state:
  "snd (snd (admit bot_id now m s)) =
     (case fst (admit bot_id now m s) of
        Admitted p \<Rightarrow> s\<lparr>users_awaiting_response := insert (author m) (users_awaiting_response s)\<rparr>
      | _ \<Rightarrow> s)"
  by (simp add: admit_def Let_def split: option.splits)

lemma cooldown_remaining_None: "cooldown_remaining now None = None"
  by (simp add: cooldown_remaining_def)

lemma stripped_empty_extract_empty:
  assumes "stripped_content bot_id m = []"
  shows "extract_prompt bot_id m = []"
proof (cases "is_command (content m)")
  case True
  with assms have "\<forall>c \<in> set (drop 4 (content m)). isspace c"
    by (simp add: stripped_content_def strip_Nil_iff length_command_word)
  moreover have "drop 5 (content m) = drop 1 (drop 4 (content m))"
    by simp
  then have "set (drop 5 (content m)) \<subseteq> set (drop 4 (content m))"
    by (metis set_drop_subset)
  ultimately have "\<forall>c \<in> set (drop 5 (content m)). isspace c" by blast
  with True show ?thesis by (simp add: extract_prompt_command strip_Nil_iff)
next
  case False
  with assms show ?thesis by (simp add: stripped_content_def extract_prompt_def)
qed

lemma mention_token_not_Nil: "mention_token bot_id \<noteq> []"
  by (simp add: mention_token_def py_def)

lemma mention_token_not_command: "\<not> is_command (mention_token bot_id)"
  by (simp add: mention_token_def is_command_def startswith_def py_def)

lemma stripped_bare_command: "stripped_content bot_id (ask u (py ''!ask'')) = []"
  by (simp add: stripped_content_def ask_def is_command_take strip_def length_command_word)

lemma stripped_bare_mention: "stripped_content bot_id (mention u (mention_token bot_id)) = []"
  by (simp add: stripped_content_def mention_def mention_token_not_command
      str_remove_self mention_token_not_Nil strip_def)

text \<open>
  Claim C9. A content is a command as soon as its first four characters are \<^verbatim>\<open>!ask\<close>; no
  space has to follow. The prompt of a command is the content without its first five
  characters, stripped. So \<^verbatim>\<open>!askhello\<close> from a user who is not the bot, has no request in
  progress and no cooldown entry is admitted with the prompt \<^verbatim>\<open>ello\<close>: the character after
  the command word is lost.
\<close>

theorem command_word_without_space:
  "is_command c = (take 4 c = py ''!ask'') \<and>
   (is_command (content m) \<longrightarrow> extract_prompt bot_id m = strip (drop 5 (content m))) \<and>
   (author m \<noteq> bot_id \<and> author m \<notin> users_awaiting_response s \<and>
    user_cooldowns s (author m) = None \<and> content m = py ''!askhello'' \<longrightarrow>
      admit bot_id now m s =
        (Admitted (py ''ello''), [],
         s\<lparr>users_awaiting_response := insert (author m) (users_awaiting_response s)\<rparr>))"
proof (intro conjI impI)
  show "is_command c = (take 4 c = py ''!ask'')" by (rule is_command_take)
next
  assume "is_command (content m)"
  then show "extract_prompt bot_id m = strip (drop 5 (content m))"
    by (rule extract_prompt_command)
next
  assume a: "author m \<noteq> bot_id \<and> author m \<notin> users_awaiting_response s \<and>
    user_cooldowns s (author m) = None \<and> content m = py ''!askhello''"
  then have c: "is_command (content m)"
    by (simp add: is_command_take py_def)
  then have "extract_prompt bot_id m = strip (drop 5 (py ''!askhello''))"
    using a by (simp add: extract_prompt_command)
  also have "\<dots> = py ''ello''"
    by (simp add: py_def strip_def isspace_def)
  finally have p: "extract_prompt bot_id m = py ''ello''" .
  have "py ''ello'' \<noteq> []" by (simp add: py_def)
  with a c p admit_admitted [of m bot_id s now]
  show "admit bot_id now m s =
        (Admitted (py ''ello''), [],
         s\<lparr>users_awaiting_response := insert (author m) (users_awaiting_response s)\<rparr>)"
    by (simp add: cooldown_remaining_None)
qed

theorem command_word_without_space_witness:
  "is_command (py ''!askhello'') \<and>
   extract_prompt 999 (ask 7 (py ''!askhello'')) = py ''ello'' \<and>
   fst (admit 999 0 (ask 7 (py ''!askhello'')) (shared initial)) = Admitted (py ''ello'')"
  using command_word_without_space
    [where c = "py ''!askhello''" and m = "ask 7 (py ''!askhello'')" and bot_id = 999
       and s = "shared initial" and now = 0]
  by (simp add: ask_def initial_def py_def strip_def isspace_def)

text \<open>
  Claim C3, as the code has it. For a user other than the bot with no cooldown entry and
  no request in progress, a triggering message (command or mention) whose extracted prompt
  is not empty is admitted with that prompt, and the user is added to the set of users
  awaiting a response.
\<close>

theorem first_request_admitted:
  "author m \<noteq> bot_id \<Longrightarrow> is_command (content m) \<or> mentions_bot m \<Longrightarrow>
   author m \<notin> users_awaiting_response s \<Longrightarrow> user_cooldowns s (author m) = None \<Longrightarrow>
   extract_prompt bot_id m \<noteq> [] \<Longrightarrow>
   admit bot_id now m s =
     (Admitted (extract_prompt bot_id m), [],
      s\<lparr>users_awaiting_response := insert (author m) (users_awaiting_response s)\<rparr>)"
  by (simp add: admit_admitted cooldown_remaining_None)

theorem first_request_admitted_witness:
  "author (ask 7 (py ''!ask hello'')) \<noteq> 999 \<and> is_command (content (ask 7 (py ''!ask hello''))) \<and>
   author (ask 7 (py ''!ask hello'')) \<notin> users_awaiting_response (shared initial) \<and>
   user_cooldowns (shared initial) (author (ask 7 (py ''!ask hello''))) = None \<and>
   extract_prompt 999 (ask 7 (py ''!ask hello'')) = py ''hello'' \<and>
   fst (admit 999 0 (ask 7 (py ''!ask hello'')) (shared initial)) = Admitted (py ''hello'')"
  using first_request_admitted [where m = "ask 7 (py ''!ask hello'')" and bot_id = 999
      and s = "shared initial" and now = 0]
  by (simp add: ask_def initial_def is_command_take extract_prompt_command py_def strip_def isspace_def)

text \<open>
  The first triggering message of a user with no entry and no request in progress is not
  always admitted: the bare command \<^verbatim>\<open>!ask\<close> is rejected for its empty prompt.
\<close>

theorem first_request_empty_prompt:
  "7 \<notin> users_awaiting_response (shared initial) \<and>
   user_cooldowns (shared initial) 7 = None \<and>
   is_command (content (ask 7 (py ''!ask''))) \<and>
   fst (admit 999 0 (ask 7 (py ''!ask'')) (shared initial)) = EmptyPrompt \<and>
   fst (admit 999 0 (ask 7 (py ''!ask'')) (shared initial)) \<noteq> Admitted (extract_prompt 999 (ask 7 (py ''!ask'')))"
  by (simp add: admit_def ask_def initial_def is_command_take extract_prompt_command
      cooldown_remaining_None strip_def py_def)

text \<open>
  Claim C5. The decision of the handler is the one the rule list gives, read in the order
  own message, no trigger, request in progress, cooldown, empty prompt, the first rule that
  applies deciding. In particular, when the author has a request in progress and is inside
  the cooldown window, the decision is never the cooldown one, and it is the
  request-in-progress one as soon as the first two rules let the message pass; and a message
  of the bot itself is ignored, with nothing sent and nothing changed, whatever the rest.
\<close>

theorem admission_order:
  "fst (admit bot_id now m s) = admission_rules bot_id now m s \<and>
   (author m \<in> users_awaiting_response s \<and>
    cooldown_remaining now (user_cooldowns s (author m)) = Some r \<longrightarrow>
      (\<forall>r'. fst (admit bot_id now m s) \<noteq> OnCooldown r') \<and>
      (author m \<noteq> bot_id \<and> (is_command (content m) \<or> mentions_bot m) \<longrightarrow>
         admit bot_id now m s =
           (AlreadyInFlight, [Notice (py ''Please wait for your previous request to complete.'')], s))) \<and>
   (author m = bot_id \<longrightarrow> admit bot_id now m s = (Ignored, [], s))"
proof (intro conjI impI allI)
  show "fst (admit bot_id now m s) = admission_rules bot_id now m s" by (rule admit_rules)
next
  fix r'
  assume "author m \<in> users_awaiting_response s \<and>
    cooldown_remaining now (user_cooldowns s (author m)) = Some r"
  then show "fst (admit bot_id now m s) \<noteq> OnCooldown r'"
    by (simp add: admit_def)
next
  assume "author m \<in> users_awaiting_response s \<and>
    cooldown_remaining now (user_cooldowns s (author m)) = Some r"
    and "author m \<noteq> bot_id \<and> (is_command (content m) \<or> mentions_bot m)"
  then show "admit bot_id now m s =
           (AlreadyInFlight, [Notice (py ''Please wait for your previous request to complete.'')], s)"
    by (simp add: admit_in_flight)
next
  assume "author m = bot_id"
  then show "admit bot_id now m s = (Ignored, [], s)" by (simp add: admit_def)
qed

theorem admission_order_witness:
  "author (ask 7 (py ''!ask again'')) \<in> users_awaiting_response (busy_since 7 0) \<and>
   cooldown_remaining 5000000 (user_cooldowns (busy_since 7 0) (author (ask 7 (py ''!ask again'')))) = Some 10 \<and>
   fst (admit 999 5000000 (ask 7 (py ''!ask again'')) (busy_since 7 0)) = AlreadyInFlight \<and>
   admit 7 5000000 (ask 7 (py ''!ask again'')) (busy_since 7 0) = (Ignored, [], busy_since 7 0)"
  using admission_order [where m = "ask 7 (py ''!ask again'')" and bot_id = 999
      and s = "busy_since 7 0" and now = 5000000 and r = 10]
    admission_order [where m = "ask 7 (py ''!ask again'')" and bot_id = 7
      and s = "busy_since 7 0" and now = 5000000]
  by (simp add: ask_def busy_since_def cooldown_remaining_def COOLDOWN_SECONDS_def
      remaining_after_5 is_command_take py_def)

text \<open>
  Claim C7, as the code has it. The bare command \<^verbatim>\<open>!ask\<close> and the bare self-mention have an
  empty stripped content. Whenever the stripped content of a message is empty, the prompt
  the handler extracts is empty too, the message is never admitted, and the handler ends
  after its admission part, so that \<^verbatim>\<open>get_ai_response\<close> is not called (the result does not
  depend on the surroundings of the pipeline). The decision is the empty-prompt one when no
  earlier rule applies: the author is not the bot, the message triggers, the author has no
  request in progress and is outside the cooldown window.
\<close>

theorem empty_prompt_rule:
  "stripped_content bot_id (ask u (py ''!ask'')) = [] \<and>
   stripped_content bot_id (mention u (mention_token bot_id)) = [] \<and>
   (stripped_content bot_id m = [] \<longrightarrow>
      extract_prompt bot_id m = [] \<and>
      (\<forall>p. fst (admit bot_id now m s) \<noteq> Admitted p) \<and>
      on_message bot_id ep env now m s =
        (fst (admit bot_id now m s), Returned, fst (snd (admit bot_id now m s)), s) \<and>
      (author m \<noteq> bot_id \<and> (is_command (content m) \<or> mentions_bot m) \<and>
       author m \<notin> users_awaiting_response s \<and>
       cooldown_remaining now (user_cooldowns s (author m)) = None \<longrightarrow>
         admit bot_id now m s =
           (EmptyPrompt, [Notice (py ''Please provide a prompt after the command or mention!'')], s)))"
proof (intro conjI impI allI)
  show "stripped_content bot_id (ask u (py ''!ask'')) = []" by (rule stripped_bare_command)
  show "stripped_content bot_id (mention u (mention_token bot_id)) = []"
    by (rule stripped_bare_mention)
next
  assume "stripped_content bot_id m = []"
  then show "extract_prompt bot_id m = []" by (rule stripped_empty_extract_empty)
next
  fix p
  assume "stripped_content bot_id m = []"
  then have "extract_prompt bot_id m = []" by (rule stripped_empty_extract_empty)
  then show "fst (admit bot_id now m s) \<noteq> Admitted p"
    by (auto simp: admit_Admitted_iff)
next
  assume "stripped_content bot_id m = []"
  then have e: "extract_prompt bot_id m = []" by (rule stripped_empty_extract_empty)
  then have n: "\<And>p. fst (admit bot_id now m s) \<noteq> Admitted p"
    by (auto simp: admit_Admitted_iff)
  obtain d sent s1 where a: "admit bot_id now m s = (d, sent, s1)"
    by (cases "admit bot_id now m s") auto
  with n have d: "\<And>p. d \<noteq> Admitted p" by simp
  from a admit_state [of bot_id now m s] d have "s1 = s"
    by (cases d) auto
  with a d show "on_message bot_id ep env now m s =
        (fst (admit bot_id now m s), Returned, fst (snd (admit bot_id now m s)), s)"
    by (cases d) (auto simp: on_message_def)
next
  assume "stripped_content bot_id m = []"
    and "author m \<noteq> bot_id \<and> (is_command (content m) \<or> mentions_bot m) \<and>
       author m \<notin> users_awaiting_response s \<and>
       cooldown_remaining now (user_cooldowns s (author m)) = None"
  then show "admit bot_id now m s =
           (EmptyPrompt, [Notice (py ''Please provide a prompt after the command or mention!'')], s)"
    by (simp add: admit_empty stripped_empty_extract_empty)
qed

theorem empty_prompt_rule_witness:
  "stripped_content 999 (mention 7 (mention_token 999)) = [] \<and>
   on_message 999 example_endpoint (delivering http_hi 0) 0 (mention 7 (mention_token 999)) (shared initial) =
     (EmptyPrompt, Returned, [Notice (py ''Please provide a prompt after the command or mention!'')], shared initial)"
  using empty_prompt_rule [where bot_id = 999 and u = 7 and m = "mention 7 (mention_token 999)"
      and s = "shared initial" and now = 0 and ep = example_endpoint and env = "delivering http_hi 0"]
  by (simp add: mention_def initial_def cooldown_remaining_None)

section \<open>The pipeline\<close>

lemma try_block_awaiting:
  "users_awaiting_response (snd (snd (try_block ep env u prompt s))) = users_awaiting_response s"
  by (simp add: try_block_def split: option.splits sum.splits)

lemma try_block_cooldowns_other:
  "v \<noteq> u \<Longrightarrow> user_cooldowns (snd (snd (try_block ep env u prompt s))) v = user_cooldowns s v"
  by (simp add: try_block_def split: option.splits sum.splits)

lemma try_block_cooldowns:
  "get_ai_response ep (stdout env) (http env) prompt = Inr reply \<Longrightarrow>
   user_cooldowns (snd (snd (try_block ep env u prompt s))) =
     (if typing_enter env = None \<and> send_result env reply = None
      then (user_cooldowns s)(u \<mapsto> completion_time env) else user_cooldowns s)"
  by (auto simp: try_block_def split: option.splits)

lemma try_block_sent:
  "get_ai_response ep (stdout env) (http env) prompt = Inr reply \<Longrightarrow>
   fst (snd (try_block ep env u prompt s)) =
     (if typing_enter env = None \<and> send_result env reply = None then [Reply reply] else [])"
  by (auto simp: try_block_def split: option.splits)

lemma pipeline_cooldowns:
  "user_cooldowns (snd (snd (pipeline ep env u prompt s))) =
   user_cooldowns (snd (snd (try_block ep env u prompt s)))"
  by (simp add: pipeline_def split: prod.splits)

lemma pipeline_sent:
  "fst (snd (pipeline ep env u prompt s)) = fst (snd (try_block ep env u prompt s))"
  by (simp add: pipeline_def split: prod.splits)

lemma pipeline_awaiting:
  "users_awaiting_response (snd (snd (pipeline ep env u prompt s))) = users_awaiting_response s - {u}"
proof -
  obtain ending sent s1 where t: "try_block ep env u prompt s = (ending, sent, s1)"
    by (cases "try_block ep env u prompt s") auto
  with try_block_awaiting [of ep env u prompt s]
  have "users_awaiting_response s1 = users_awaiting_response s" by simp
  with t show ?thesis by (auto simp: pipeline_def)
qed

lemma pipeline_ending:
  "u \<in> users_awaiting_response s \<Longrightarrow>
   fst (pipeline ep env u prompt s) = fst (try_block ep env u prompt s)"
proof -
  assume u: "u \<in> users_awaiting_response s"
  obtain ending sent s1 where t: "try_block ep env u prompt s = (ending, sent, s1)"
    by (cases "try_block ep env u prompt s") auto
  with try_block_awaiting [of ep env u prompt s]
  have "users_awaiting_response s1 = users_awaiting_response s" by simp
  with t u show ?thesis by (simp add: pipeline_def)
qed

text \<open>
  What the pipeline does when the inference call ends in a failure: the failure message is
  an ordinary return value, so the pipeline sends it as its reply and, once the reply is
  delivered (the typing indicator was entered and the send did not raise), line 135 sets
  the cooldown entry of the user to the current time. The entry is left as it was only
  when entering the typing indicator or sending the reply raises.
\<close>

theorem cooldown_after_failure:
  "get_ai_outcome ep (stdout env) (http env) prompt = Inr (Failure k) \<Longrightarrow>
   user_cooldowns (snd (snd (pipeline ep env u prompt s))) =
     (if typing_enter env = None \<and> send_result env (failure_text k) = None
      then (user_cooldowns s)(u \<mapsto> completion_time env) else user_cooldowns s) \<and>
   fst (snd (pipeline ep env u prompt s)) =
     (if typing_enter env = None \<and> send_result env (failure_text k) = None
      then [Reply (failure_text k)] else [])"
proof -
  assume "get_ai_outcome ep (stdout env) (http env) prompt = Inr (Failure k)"
  then have "get_ai_response ep (stdout env) (http env) prompt = Inr (failure_text k)"
    by (simp add: get_ai_response_render)
  then show ?thesis
    by (simp add: pipeline_cooldowns pipeline_sent try_block_cooldowns try_block_sent)
qed

lemma refused_outcome:
  "get_ai_outcome example_endpoint quiet http_refused p = Inr (Failure ConnectionRefused)"
  by (simp add: get_ai_outcome_def example_endpoint_def post_prompt_def http_refused_def
      quiet_def py_print_def bind_exn_def py_def)

theorem cooldown_after_failure_witness:
  "get_ai_outcome example_endpoint (stdout (delivering http_refused 5000000))
       (http (delivering http_refused 5000000)) (py ''hello'')
     = Inr (Failure ConnectionRefused) \<and>
   user_cooldowns (snd (snd (pipeline example_endpoint (delivering http_refused 5000000) 7
       (py ''hello'') (busy_since 7 0)))) 7 = Some 5000000 \<and>
   user_cooldowns (snd (snd (pipeline example_endpoint (send_failing http_refused 5000000) 7
       (py ''hello'') (busy_since 7 0)))) 7 = Some 0"
  using cooldown_after_failure [where ep = example_endpoint and env = "delivering http_refused 5000000"
      and prompt = "py ''hello''" and k = ConnectionRefused and u = 7 and s = "busy_since 7 0"]
    cooldown_after_failure [where ep = example_endpoint and env = "send_failing http_refused 5000000"
      and prompt = "py ''hello''" and k = ConnectionRefused and u = 7 and s = "busy_since 7 0"]
    refused_outcome
  by (simp add: delivering_def send_failing_def busy_since_def)

text \<open>
  Claim C1 does not hold of the code. A user with no cooldown entry sends \<^verbatim>\<open>!ask hello\<close>
  and is admitted, the endpoint refuses the connection, the inference call ends in the
  failure \<open>ConnectionRefused\<close> and the apology is delivered: the handler has then given the
  user a cooldown entry, where the claim and the comment of line 134 keep the entry for
  successful requests.
\<close>

theorem failed_request_sets_cooldown:
  "fst (admit 999 0 (ask 7 (py ''!ask hello'')) (shared initial)) = Admitted (py ''hello'') \<and>
   get_ai_outcome example_endpoint (stdout (delivering http_refused 5000000))
       (http (delivering http_refused 5000000)) (py ''hello'')
     = Inr (Failure ConnectionRefused) \<and>
   user_cooldowns (shared initial) 7 = None \<and>
   user_cooldowns (snd (snd (snd (on_message 999 example_endpoint (delivering http_refused 5000000) 0
      (ask 7 (py ''!ask hello'')) (shared initial))))) 7 = Some 5000000"
proof -
  have a: "admit 999 0 (ask 7 (py ''!ask hello'')) (shared initial) =
      (Admitted (py ''hello''), [],
       (shared initial)\<lparr>users_awaiting_response := insert 7 (users_awaiting_response (shared initial))\<rparr>)"
    by (simp add: admit_def ask_def initial_def is_command_take extract_prompt_command
        cooldown_remaining_None strip_def isspace_def py_def)
  have o: "get_ai_outcome example_endpoint (stdout (delivering http_refused 5000000))
       (http (delivering http_refused 5000000)) (py ''hello'')
     = Inr (Failure ConnectionRefused)"
    by (simp add: refused_outcome delivering_def)
  then have r: "get_ai_response example_endpoint (stdout (delivering http_refused 5000000))
       (http (delivering http_refused 5000000)) (py ''hello'')
     = Inr (failure_text ConnectionRefused)"
    by (simp add: get_ai_response_render)
  have c: "user_cooldowns (snd (snd (pipeline example_endpoint (delivering http_refused 5000000) 7 (py ''hello'')
       ((shared initial)\<lparr>users_awaiting_response := insert 7 (users_awaiting_response (shared initial))\<rparr>)))) 7
       = Some 5000000"
    using r by (simp add: pipeline_cooldowns try_block_cooldowns delivering_def)
  have "user_cooldowns (snd (snd (snd (on_message 999 example_endpoint (delivering http_refused 5000000) 0
      (ask 7 (py ''!ask hello'')) (shared initial))))) 7 = Some 5000000"
    using a c by (simp add: on_message_def ask_def split: prod.splits)
  with a o show ?thesis by (simp add: initial_def)
qed

section \<open>Runs: the set of users awaiting a response\<close>

lemma run_Nil: "run bot_id ep [] = initial"
  by (simp add: run_def)

lemma run_snoc: "run bot_id ep (es @ [e]) = step bot_id ep (run bot_id ep es) e"
  by (simp add: run_def)

lemma step_arrive_admitted:
  "fst (admit bot_id now m (shared c)) = Admitted p \<Longrightarrow>
   step bot_id ep c (Arrive m now) =
     \<lparr> shared = (shared c)\<lparr>users_awaiting_response :=
                     insert (author m) (users_awaiting_response (shared c))\<rparr>,
       pending = (author m, p) # pending c \<rparr>"
proof -
  assume a: "fst (admit bot_id now m (shared c)) = Admitted p"
  obtain d sent s1 where t: "admit bot_id now m (shared c) = (d, sent, s1)"
    by (cases "admit bot_id now m (shared c)") auto
  with a have d: "d = Admitted p" by simp
  from t d admit_state [of bot_id now m "shared c"]
  have "s1 = (shared c)\<lparr>users_awaiting_response :=
                     insert (author m) (users_awaiting_response (shared c))\<rparr>"
    by simp
  with t d show ?thesis by simp
qed

lemma step_arrive_rejected:
  "(\<And>p. fst (admit bot_id now m (shared c)) \<noteq> Admitted p) \<Longrightarrow>
   step bot_id ep c (Arrive m now) = c"
proof -
  assume n: "\<And>p. fst (admit bot_id now m (shared c)) \<noteq> Admitted p"
  obtain d sent s1 where t: "admit bot_id now m (shared c) = (d, sent, s1)"
    by (cases "admit bot_id now m (shared c)") auto
  with n have d: "\<And>p. d \<noteq> Admitted p" by simp
  from t admit_state [of bot_id now m "shared c"] d have "s1 = shared c"
    by (cases d) auto
  with t d show ?thesis by (cases d) auto
qed

lemma step_complete_idle:
  "map_of (pending c) u = None \<Longrightarrow> step bot_id ep c (Complete u env) = c"
  by simp

lemma step_complete_pending:
  "map_of (pending c) u = Some p \<Longrightarrow>
   step bot_id ep c (Complete u env) =
     \<lparr> shared = snd (snd (pipeline ep env u p (shared c))),
       pending = remove1 (u, p) (pending c) \<rparr>"
  by simp

lemma keys_remove1:
  "distinct (map fst xs) \<Longrightarrow> (u, p) \<in> set xs \<Longrightarrow>
   fst ` set (remove1 (u, p) xs) = fst ` set xs - {u}"
proof (induction xs)
  case Nil
  then show ?case by simp
next
  case (Cons x xs)
  show ?case
  proof (cases "x = (u, p)")
    case True
    with Cons.prems show ?thesis by force
  next
    case False
    with Cons.prems have m: "(u, p) \<in> set xs" and d: "distinct (map fst xs)"
      and x: "fst x \<notin> fst ` set xs"
      by auto
    from m have "u \<in> fst ` set xs" by (metis fst_conv image_eqI)
    with x have "fst x \<noteq> u" by blast
    with False Cons.IH [OF d m] show ?thesis by auto
  qed
qed

lemma distinct_keys_remove1:
  "distinct (map fst xs) \<Longrightarrow> distinct (map fst (remove1 x xs))"
proof (induction xs)
  case Nil
  then show ?case by simp
next
  case (Cons y ys)
  then have "fst y \<notin> fst ` set ys" and "distinct (map fst ys)" by auto
  moreover have "set (remove1 x ys) \<subseteq> set ys" by (rule set_remove1_subset)
  ultimately show ?case using Cons.IH by auto
qed

lemma in_flight_initial: "in_flight_matches initial"
  by (simp add: in_flight_matches_def initial_def)

lemma in_flight_step:
  assumes "in_flight_matches c"
  shows "in_flight_matches (step bot_id ep c e)"
proof (cases e)
  case (Arrive m now)
  show ?thesis
  proof (cases "\<exists>p. fst (admit bot_id now m (shared c)) = Admitted p")
    case True
    then obtain p where p: "fst (admit bot_id now m (shared c)) = Admitted p" by blast
    then have "author m \<notin> users_awaiting_response (shared c)"
      by (simp add: admit_Admitted_iff)
    with assms Arrive step_arrive_admitted [OF p, of ep] show ?thesis
      by (auto simp: in_flight_matches_def)
  next
    case False
    then have "step bot_id ep c (Arrive m now) = c"
      by (intro step_arrive_rejected) blast
    with assms Arrive show ?thesis by simp
  qed
next
  case (Complete u env)
  show ?thesis
  proof (cases "map_of (pending c) u")
    case None
    with assms Complete show ?thesis by simp
  next
    case (Some p)
    then have m: "(u, p) \<in> set (pending c)" by (rule map_of_SomeD)
    from assms have d: "distinct (map fst (pending c))"
      and a: "users_awaiting_response (shared c) = fst ` set (pending c)"
      by (simp_all add: in_flight_matches_def)
    have "users_awaiting_response (snd (snd (pipeline ep env u p (shared c))))
        = fst ` set (remove1 (u, p) (pending c))"
      using a keys_remove1 [OF d m] by (simp add: pipeline_awaiting)
    moreover have "distinct (map fst (remove1 (u, p) (pending c)))"
      using d by (rule distinct_keys_remove1)
    ultimately show ?thesis using Complete Some
      by (simp add: in_flight_matches_def)
  qed
qed

lemma in_flight_run: "in_flight_matches (run bot_id ep events)"
proof (induction events rule: rev_induct)
  case Nil
  show ?case by (simp add: run_Nil in_flight_initial)
next
  case (snoc e es)
  then show ?case by (simp add: run_snoc in_flight_step)
qed

lemma admit_AlreadyInFlight:
  "fst (admit bot_id now m s) = AlreadyInFlight \<Longrightarrow> author m \<in> users_awaiting_response s"
  by (auto simp: admit_def Let_def split: if_splits option.splits)

lemma admit_OnCooldown:
  "fst (admit bot_id now m s) = OnCooldown r \<Longrightarrow>
   cooldown_remaining now (user_cooldowns s (author m)) = Some r"
  by (auto simp: admit_def Let_def split: if_splits option.splits)

text \<open>
  Claim C4. Take any run of the bot and a user with an admitted request in progress. The
  user is in the set of users awaiting a response, so whatever the surroundings do (the
  typing indicator raises, the inference call fails in any way or succeeds, the send
  raises), the \<^verbatim>\<open>remove\<close> of the \<^verbatim>\<open>finally\<close> block finds the user and raises nothing: the
  pipeline ends as its \<^verbatim>\<open>try\<close> block did, and the set has lost exactly that user. After the
  pipeline the user is neither in the set nor among the handlers in progress, a message
  of that user is not rejected for a request in progress, and at any later moment of the
  run such a rejection means that a handler of the author is in progress again.
\<close>

theorem released_on_every_exit:
  "map_of (pending (run bot_id ep events)) u = Some prompt \<Longrightarrow>
     u \<in> users_awaiting_response (shared (run bot_id ep events)) \<and>
     fst (pipeline ep env u prompt (shared (run bot_id ep events)))
       = fst (try_block ep env u prompt (shared (run bot_id ep events))) \<and>
     users_awaiting_response (snd (snd (pipeline ep env u prompt (shared (run bot_id ep events)))))
       = users_awaiting_response (shared (run bot_id ep events)) - {u} \<and>
     u \<notin> users_awaiting_response (shared (run bot_id ep (events @ [Complete u env]))) \<and>
     u \<notin> fst ` set (pending (run bot_id ep (events @ [Complete u env]))) \<and>
     (author m = u \<longrightarrow>
        fst (admit bot_id now m (shared (run bot_id ep (events @ [Complete u env]))))
          \<noteq> AlreadyInFlight) \<and>
     (fst (admit bot_id now m (shared (run bot_id ep (events @ Complete u env # later))))
          = AlreadyInFlight \<longrightarrow>
        author m \<in> fst ` set (pending (run bot_id ep (events @ Complete u env # later))))"
proof -
  let ?c = "run bot_id ep events"
  let ?c' = "run bot_id ep (events @ [Complete u env])"
  assume p: "map_of (pending ?c) u = Some prompt"
  then have m: "(u, prompt) \<in> set (pending ?c)" by (rule map_of_SomeD)
  have i: "in_flight_matches ?c" by (rule in_flight_run)
  from i m have u: "u \<in> users_awaiting_response (shared ?c)"
    by (force simp: in_flight_matches_def)
  have c': "?c' = \<lparr> shared = snd (snd (pipeline ep env u prompt (shared ?c))),
       pending = remove1 (u, prompt) (pending ?c) \<rparr>"
    using p by (simp add: run_snoc)
  then have a': "u \<notin> users_awaiting_response (shared ?c')"
    by (simp add: pipeline_awaiting)
  have "in_flight_matches ?c'" by (rule in_flight_run)
  with a' have k: "u \<notin> fst ` set (pending ?c')"
    by (simp add: in_flight_matches_def)
  from a' have "author m = u \<longrightarrow> fst (admit bot_id now m (shared ?c')) \<noteq> AlreadyInFlight"
    by (auto dest: admit_AlreadyInFlight)
  moreover have "fst (admit bot_id now m (shared (run bot_id ep (events @ Complete u env # later))))
          = AlreadyInFlight \<longrightarrow>
        author m \<in> fst ` set (pending (run bot_id ep (events @ Complete u env # later)))"
    using in_flight_run [of bot_id ep "events @ Complete u env # later"]
    by (auto simp: in_flight_matches_def dest: admit_AlreadyInFlight)
  ultimately show ?thesis using u a' k
    by (simp add: pipeline_ending pipeline_awaiting)
qed

lemma hello_prompt: "extract_prompt 999 (ask 7 (py ''!ask hello'')) = py ''hello''"
  by (simp add: ask_def extract_prompt_def is_command_take length_command_word_space
      py_def strip_def isspace_def)

lemma again_prompt: "extract_prompt 999 (ask 7 (py ''!ask again'')) = py ''again''"
  by (simp add: ask_def extract_prompt_def is_command_take length_command_word_space
      py_def strip_def isspace_def)

lemma hello_admitted:
  "admit 999 0 (ask 7 (py ''!ask hello'')) (shared initial) =
     (Admitted (py ''hello''), [],
      \<lparr>user_cooldowns = Map.empty, users_awaiting_response = {7}\<rparr>)"
proof -
  have "admit 999 0 (ask 7 (py ''!ask hello'')) (shared initial) =
     (Admitted (extract_prompt 999 (ask 7 (py ''!ask hello''))), [],
      (shared initial)\<lparr>users_awaiting_response :=
         insert (author (ask 7 (py ''!ask hello''))) (users_awaiting_response (shared initial))\<rparr>)"
    by (rule admit_admitted)
       (simp_all add: hello_prompt, simp_all add: ask_def initial_def is_command_take
          cooldown_remaining_None py_def)
  then show ?thesis unfolding hello_prompt by (simp add: ask_def initial_def)
qed

lemma run_request_under_way:
  "run 999 example_endpoint request_under_way =
     \<lparr> shared = \<lparr>user_cooldowns = Map.empty, users_awaiting_response = {7}\<rparr>,
       pending = [(7, py ''hello'')] \<rparr>"
  by (simp add: run_def request_under_way_def hello_admitted)
     (simp add: ask_def initial_def)

lemma hi_response: "get_ai_response example_endpoint quiet http_hi p = Inr (py ''hi'')"
  by (simp add: get_ai_response_def get_ai_outcome_def post_prompt_def example_endpoint_def
      http_hi_def has_expected_keys_def generated_text_def bind_exn_def py_def strip_def
      isspace_def)

theorem released_on_every_exit_witness:
  "map_of (pending (run 999 example_endpoint request_under_way)) 7 = Some (py ''hello'') \<and>
   fst (pipeline example_endpoint (send_failing http_hi 1000000) 7 (py ''hello'')
          (shared (run 999 example_endpoint request_under_way)))
     = Raised (OtherException (py ''HTTPException'')) \<and>
   7 \<notin> users_awaiting_response
          (shared (run 999 example_endpoint
             (request_under_way @ [Complete 7 (send_failing http_hi 1000000)]))) \<and>
   7 \<notin> users_awaiting_response
          (shared (run 999 example_endpoint
             (request_under_way @ [Complete 7 (typing_failing http_hi 1000000)]))) \<and>
   7 \<notin> users_awaiting_response
          (shared (run 999 example_endpoint
             (request_under_way @ [Complete 7 (delivering http_refused 1000000)]))) \<and>
   fst (admit 999 2000000 (ask 7 (py ''!ask again''))
          (shared (run 999 example_endpoint
             (request_under_way @ [Complete 7 (send_failing http_hi 1000000)]))))
     \<noteq> AlreadyInFlight"
proof -
  have p: "map_of (pending (run 999 example_endpoint request_under_way)) 7 = Some (py ''hello'')"
    by (simp add: run_request_under_way)
  have t: "fst (try_block example_endpoint (send_failing http_hi 1000000) 7 (py ''hello'')
          (shared (run 999 example_endpoint request_under_way)))
     = Raised (OtherException (py ''HTTPException''))"
    by (simp add: try_block_def send_failing_def hi_response)
  have a: "author (ask 7 (py ''!ask again'')) = 7" by (simp add: ask_def)
  from released_on_every_exit [OF p, of "send_failing http_hi 1000000" "ask 7 (py ''!ask again'')"
      2000000 "[]"]
    released_on_every_exit [OF p, of "typing_failing http_hi 1000000" "ask 7 (py ''!ask again'')"
      2000000 "[]"]
    released_on_every_exit [OF p, of "delivering http_refused 1000000" "ask 7 (py ''!ask again'')"
      2000000 "[]"]
    p t a
  show ?thesis by simp
qed

section \<open>The cooldown window\<close>

lemma cooldown_remaining_Some_iff:
  "cooldown_remaining now (Some t) =
     (if now - t < COOLDOWN_SECONDS * 1000000 then Some (remaining_time (now - t)) else None)"
  by (simp add: cooldown_remaining_def Let_def)

lemma two_powi_minus_50: "(2::rat) powi (- 50) = 1 / 2 ^ 50"
  by (simp add: power_int_def field_simps)

lemma remaining_time_error:
  assumes "0 \<le> d" and "d < COOLDOWN_SECONDS * 1000000"
  shows "\<bar>remaining_time d - (of_int COOLDOWN_SECONDS - seconds d)\<bar> \<le> 1 / 2 ^ 49"
proof -
  let ?x = "of_int d / 1000000 :: rat"
  let ?y = "15 - total_seconds d"
  from assms have x: "0 \<le> ?x" "?x < 15"
    by (simp_all add: COOLDOWN_SECONDS_def)
  have s4: "(2::rat) powi 4 = 16" by simp
  from x have "\<bar>?x\<bar> < 2 powi 4" by (simp add: s4)
  from round_double_error_below [OF this]
  have e1: "\<bar>total_seconds d - ?x\<bar> \<le> 1 / 2 ^ 50"
    by (simp add: total_seconds_def two_powi_minus_50)
  have "\<bar>?y\<bar> \<le> \<bar>15 - ?x\<bar> + \<bar>total_seconds d - ?x\<bar>" by linarith
  also have "\<dots> \<le> 15 + 1 / 2 ^ 50" using x e1 by linarith
  also have "\<dots> < 2 powi 4" by (simp add: s4)
  finally have "\<bar>?y\<bar> < 2 powi 4" .
  from round_double_error_below [OF this]
  have e2: "\<bar>round_double ?y - ?y\<bar> \<le> 1 / 2 ^ 50"
    by (simp add: two_powi_minus_50)
  have "remaining_time d - (of_int COOLDOWN_SECONDS - seconds d)
      = (round_double ?y - ?y) - (total_seconds d - ?x)"
    by (simp add: remaining_time_def seconds_def COOLDOWN_SECONDS_def)
  then have "\<bar>remaining_time d - (of_int COOLDOWN_SECONDS - seconds d)\<bar>
      \<le> \<bar>round_double ?y - ?y\<bar> + \<bar>total_seconds d - ?x\<bar>"
    by linarith
  also have "\<dots> \<le> 1 / 2 ^ 50 + 1 / 2 ^ 50" using e1 e2 by linarith
  also have "\<dots> = 1 / 2 ^ 49" by simp
  finally show ?thesis .
qed

text \<open>
  Claim C6, as the code has it. A user other than the bot has a cooldown entry \<open>t1\<close> and no
  request in progress, and sends a triggering message at time \<open>t2\<close> (times in microseconds,
  as \<^verbatim>\<open>datetime\<close> counts them; the window is \<^verbatim>\<open>COOLDOWN_SECONDS\<close> seconds). If \<open>t2 - t1\<close> is less
  than the window, the message is rejected with the cooldown notice and nothing is
  changed; the remaining time is the float that line 109 computes, the window less the
  elapsed seconds with each of the two float operations rounded, and for an elapsed time
  that is not negative it differs from the exact difference by at most \<open>2^-49\<close> seconds.
  If \<open>t2 - t1\<close> is at least the window, the message is not rejected for cooldown, whoever
  sends it.
\<close>

theorem cooldown_window:
  "user_cooldowns s (author m) = Some t1 \<Longrightarrow>
   (author m \<noteq> bot_id \<and> (is_command (content m) \<or> mentions_bot m) \<and>
    author m \<notin> users_awaiting_response s \<and> t2 - t1 < COOLDOWN_SECONDS * 1000000 \<longrightarrow>
      admit bot_id t2 m s =
        (OnCooldown (remaining_time (t2 - t1)), [CooldownNotice (remaining_time (t2 - t1))], s)) \<and>
   (0 \<le> t2 - t1 \<and> t2 - t1 < COOLDOWN_SECONDS * 1000000 \<longrightarrow>
      \<bar>remaining_time (t2 - t1) - (of_int COOLDOWN_SECONDS - seconds (t2 - t1))\<bar> \<le> 1 / 2 ^ 49) \<and>
   (COOLDOWN_SECONDS * 1000000 \<le> t2 - t1 \<longrightarrow>
      (\<forall>r. fst (admit bot_id t2 m s) \<noteq> OnCooldown r))"
proof (intro conjI impI allI)
  assume entry: "user_cooldowns s (author m) = Some t1"
  assume a: "author m \<noteq> bot_id \<and> (is_command (content m) \<or> mentions_bot m) \<and>
    author m \<notin> users_awaiting_response s \<and> t2 - t1 < COOLDOWN_SECONDS * 1000000"
  with entry have "cooldown_remaining t2 (user_cooldowns s (author m))
      = Some (remaining_time (t2 - t1))"
    by (simp add: cooldown_remaining_Some_iff)
  with a show "admit bot_id t2 m s =
        (OnCooldown (remaining_time (t2 - t1)), [CooldownNotice (remaining_time (t2 - t1))], s)"
    by (simp add: admit_cooldown)
next
  assume "0 \<le> t2 - t1 \<and> t2 - t1 < COOLDOWN_SECONDS * 1000000"
  then have "0 \<le> t2 - t1" and "t2 - t1 < COOLDOWN_SECONDS * 1000000" by blast+
  then show "\<bar>remaining_time (t2 - t1) - (of_int COOLDOWN_SECONDS - seconds (t2 - t1))\<bar> \<le> 1 / 2 ^ 49"
    by (rule remaining_time_error)
next
  fix r
  assume entry: "user_cooldowns s (author m) = Some t1"
    and "COOLDOWN_SECONDS * 1000000 \<le> t2 - t1"
  then have "cooldown_remaining t2 (user_cooldowns s (author m)) = None"
    by (simp add: cooldown_remaining_Some_iff)
  then show "fst (admit bot_id t2 m s) \<noteq> OnCooldown r"
    by (auto dest: admit_OnCooldown)
qed

lemma run_first_exchange:
  "run 999 example_endpoint first_exchange =
     \<lparr> shared = \<lparr>user_cooldowns = [7 \<mapsto> 1000000], users_awaiting_response = {}\<rparr>,
       pending = [] \<rparr>"
proof -
  have "first_exchange = request_under_way @ [Complete 7 (delivering http_hi 1000000)]"
    by (simp add: first_exchange_def request_under_way_def)
  then have "run 999 example_endpoint first_exchange =
      run 999 example_endpoint (request_under_way @ [Complete 7 (delivering http_hi 1000000)])"
    by (rule arg_cong)
  also have "\<dots> = step 999 example_endpoint (run 999 example_endpoint request_under_way)
        (Complete 7 (delivering http_hi 1000000))"
    by (rule run_snoc)
  also have "\<dots> = \<lparr> shared = \<lparr>user_cooldowns = [7 \<mapsto> 1000000], users_awaiting_response = {}\<rparr>,
       pending = [] \<rparr>"
    by (simp add: run_request_under_way pipeline_def try_block_def delivering_def hi_response)
  finally show ?thesis .
qed

lemma more_prompt: "extract_prompt 999 (ask 7 (py ''!ask more'')) = py ''more''"
  by (simp add: ask_def extract_prompt_def is_command_take length_command_word_space
      py_def strip_def isspace_def)

lemma run_clock_set_back:
  "run 999 example_endpoint clock_set_back =
     \<lparr> shared = \<lparr>user_cooldowns = [7 \<mapsto> 1000000], users_awaiting_response = {7}\<rparr>,
       pending = [(7, py ''more'')] \<rparr>"
proof -
  have "clock_set_back = first_exchange @ [Arrive (ask 7 (py ''!ask more'')) 20000000]"
    by (simp add: clock_set_back_def first_exchange_def)
  then have "run 999 example_endpoint clock_set_back =
      run 999 example_endpoint (first_exchange @ [Arrive (ask 7 (py ''!ask more'')) 20000000])"
    by (rule arg_cong)
  also have "\<dots> = step 999 example_endpoint (run 999 example_endpoint first_exchange)
        (Arrive (ask 7 (py ''!ask more'')) 20000000)"
    by (rule run_snoc)
  also have "\<dots> = \<lparr> shared = \<lparr>user_cooldowns = [7 \<mapsto> 1000000], users_awaiting_response = {7}\<rparr>,
       pending = [(7, py ''more'')] \<rparr>"
  proof -
    have "fst (admit 999 20000000 (ask 7 (py ''!ask more''))
            (shared (run 999 example_endpoint first_exchange))) = Admitted (py ''more'')"
      unfolding admit_Admitted_iff more_prompt
      by (simp add: run_first_exchange ask_def is_command_take cooldown_remaining_Some_iff
          COOLDOWN_SECONDS_def py_def)
    from step_arrive_admitted [OF this, of example_endpoint] show ?thesis
      by (simp add: run_first_exchange ask_def)
  qed
  finally show ?thesis .
qed

theorem cooldown_window_witness:
  "user_cooldowns (shared (run 999 example_endpoint first_exchange))
     (author (ask 7 (py ''!ask again''))) = Some 1000000 \<and>
   author (ask 7 (py ''!ask again'')) \<noteq> 999 \<and>
   is_command (content (ask 7 (py ''!ask again''))) \<and>
   author (ask 7 (py ''!ask again''))
     \<notin> users_awaiting_response (shared (run 999 example_endpoint first_exchange)) \<and>
   admit 999 6500000 (ask 7 (py ''!ask again'')) (shared (run 999 example_endpoint first_exchange))
     = (OnCooldown (19 / 2), [CooldownNotice (19 / 2)],
        shared (run 999 example_endpoint first_exchange)) \<and>
   \<bar>remaining_time 14999999 - 1 / 1000000\<bar> \<le> 1 / 2 ^ 49 \<and>
   fst (admit 999 17000000 (ask 7 (py ''!ask again''))
          (shared (run 999 example_endpoint first_exchange))) \<noteq> OnCooldown 0"
proof -
  have e: "user_cooldowns (shared (run 999 example_endpoint first_exchange))
     (author (ask 7 (py ''!ask again''))) = Some 1000000"
    by (simp add: run_first_exchange ask_def)
  have h: "author (ask 7 (py ''!ask again'')) \<noteq> 999 \<and>
      is_command (content (ask 7 (py ''!ask again''))) \<and>
      author (ask 7 (py ''!ask again''))
        \<notin> users_awaiting_response (shared (run 999 example_endpoint first_exchange))"
    by (simp add: run_first_exchange ask_def is_command_take py_def)
  from cooldown_window [OF e, of 999 6500000] cooldown_window [OF e, of 999 15999999]
    cooldown_window [OF e, of 999 17000000] e h
  show ?thesis
    by (simp add: COOLDOWN_SECONDS_def seconds_def remaining_after_5_5)
qed

text \<open>
  The claim fails in two ways. After the first exchange the user is admitted again at
  second 20; the clock is then set back, and a triggering message of the same user
  arrives at second 6.5, inside the window of the entry of second 1: it is rejected for
  the request in progress, not for the cooldown. And 14.999999 seconds after the entry the
  remaining time the handler holds is not \<open>0.000001\<close>, the exact difference.
\<close>

theorem cooldown_window_in_flight_or_inexact:
  "user_cooldowns (shared (run 999 example_endpoint clock_set_back)) 7 = Some 1000000 \<and>
   is_command (content (ask 7 (py ''!ask again''))) \<and>
   (6500000 :: int) - 1000000 < COOLDOWN_SECONDS * 1000000 \<and>
   fst (admit 999 6500000 (ask 7 (py ''!ask again''))
          (shared (run 999 example_endpoint clock_set_back))) = AlreadyInFlight \<and>
   user_cooldowns (shared (run 999 example_endpoint first_exchange)) 7 = Some 1000000 \<and>
   fst (admit 999 15999999 (ask 7 (py ''!ask again''))
          (shared (run 999 example_endpoint first_exchange)))
     = OnCooldown (562949953 / 562949953421312) \<and>
   of_int COOLDOWN_SECONDS - seconds (15999999 - 1000000) = 1 / 1000000"
proof -
  have "fst (admit 999 6500000 (ask 7 (py ''!ask again''))
          (shared (run 999 example_endpoint clock_set_back))) = AlreadyInFlight"
    by (simp add: run_clock_set_back admit_def ask_def is_command_take py_def)
  moreover have "fst (admit 999 15999999 (ask 7 (py ''!ask again''))
          (shared (run 999 example_endpoint first_exchange)))
     = OnCooldown (562949953 / 562949953421312)"
    by (simp add: run_first_exchange admit_def ask_def is_command_take
        cooldown_remaining_Some_iff COOLDOWN_SECONDS_def remaining_after_14_999999 py_def)
  moreover have "is_command (content (ask 7 (py ''!ask again'')))"
    by (simp add: ask_def is_command_take py_def)
  ultimately show ?thesis
    by (simp add: run_clock_set_back run_first_exchange COOLDOWN_SECONDS_def seconds_def)
qed

section \<open>The cooldown window over a run with a clock that goes forward\<close>

text \<open>
  During a run in which the clock never goes back, a user with a request in progress is
  outside the cooldown window, and the bot itself has neither an entry nor a request: the
  conditions on the author under which the cooldown rule decides then hold by themselves.
\<close>

lemma timed_step:
  assumes i: "in_flight_matches c"
    and b: "bot_id \<notin> users_awaiting_response (shared c)"
    and n: "user_cooldowns (shared c) bot_id = None"
    and w: "\<And>v t. v \<in> users_awaiting_response (shared c) \<Longrightarrow>
              user_cooldowns (shared c) v = Some t \<Longrightarrow> t + COOLDOWN_SECONDS * 1000000 \<le> T"
    and T: "T \<le> event_time e"
  shows "bot_id \<notin> users_awaiting_response (shared (step bot_id ep c e)) \<and>
         user_cooldowns (shared (step bot_id ep c e)) bot_id = None \<and>
         (\<forall>v t. v \<in> users_awaiting_response (shared (step bot_id ep c e)) \<longrightarrow>
            user_cooldowns (shared (step bot_id ep c e)) v = Some t \<longrightarrow>
            t + COOLDOWN_SECONDS * 1000000 \<le> event_time e)"
proof (cases e)
  case (Arrive m now)
  with T have T': "T \<le> now" by simp
  show ?thesis
  proof (cases "\<exists>p. fst (admit bot_id now m (shared c)) = Admitted p")
    case True
    then obtain p where p: "fst (admit bot_id now m (shared c)) = Admitted p" by blast
    then have a: "author m \<noteq> bot_id"
      and r: "cooldown_remaining now (user_cooldowns (shared c) (author m)) = None"
      by (simp_all add: admit_Admitted_iff)
    have s: "step bot_id ep c e =
       \<lparr> shared = (shared c)\<lparr>users_awaiting_response :=
                     insert (author m) (users_awaiting_response (shared c))\<rparr>,
         pending = (author m, p) # pending c \<rparr>"
      using Arrive step_arrive_admitted [OF p] by simp
    have "t + COOLDOWN_SECONDS * 1000000 \<le> now"
      if "v = author m \<or> v \<in> users_awaiting_response (shared c)"
        and "user_cooldowns (shared c) v = Some t" for v t
    proof (cases "v \<in> users_awaiting_response (shared c)")
      case True
      with that w [of v t] T' show ?thesis by simp
    next
      case False
      with that have "v = author m" by simp
      with r that show ?thesis
        by (simp add: cooldown_remaining_Some_iff split: if_splits)
    qed
    with s a b n Arrive show ?thesis by auto
  next
    case False
    then have "step bot_id ep c (Arrive m now) = c"
      by (intro step_arrive_rejected) blast
    with Arrive b n w T' show ?thesis by fastforce
  qed
next
  case (Complete u env)
  with T have T': "T \<le> completion_time env" by simp
  show ?thesis
  proof (cases "map_of (pending c) u")
    case None
    with Complete b n w T' show ?thesis by fastforce
  next
    case (Some p)
    then have "(u, p) \<in> set (pending c)" by (rule map_of_SomeD)
    with i have "u \<in> users_awaiting_response (shared c)"
      by (force simp: in_flight_matches_def)
    with b have u: "u \<noteq> bot_id" by blast
    have s: "shared (step bot_id ep c e) = snd (snd (pipeline ep env u p (shared c)))"
      using Complete Some by simp
    have o: "user_cooldowns (shared (step bot_id ep c e)) v = user_cooldowns (shared c) v"
      if "v \<noteq> u" for v
      using that s by (simp add: pipeline_cooldowns try_block_cooldowns_other)
    have a: "users_awaiting_response (shared (step bot_id ep c e))
        = users_awaiting_response (shared c) - {u}"
      using s by (simp add: pipeline_awaiting)
    have "t + COOLDOWN_SECONDS * 1000000 \<le> event_time e"
      if "v \<in> users_awaiting_response (shared (step bot_id ep c e))"
        and "user_cooldowns (shared (step bot_id ep c e)) v = Some t" for v t
    proof -
      from that a have "v \<noteq> u" and "v \<in> users_awaiting_response (shared c)" by auto
      with that o [of v] w [of v t] T show ?thesis by simp
    qed
    moreover from u o [of bot_id] n
    have "user_cooldowns (shared (step bot_id ep c e)) bot_id = None" by simp
    moreover from a b have "bot_id \<notin> users_awaiting_response (shared (step bot_id ep c e))"
      by simp
    ultimately show ?thesis by blast
  qed
qed

lemma timed_run:
  "sorted (map event_time events) \<Longrightarrow> \<forall>e \<in> set events. event_time e \<le> T \<Longrightarrow>
   bot_id \<notin> users_awaiting_response (shared (run bot_id ep events)) \<and>
   user_cooldowns (shared (run bot_id ep events)) bot_id = None \<and>
   (\<forall>v t. v \<in> users_awaiting_response (shared (run bot_id ep events)) \<longrightarrow>
      user_cooldowns (shared (run bot_id ep events)) v = Some t \<longrightarrow>
      t + COOLDOWN_SECONDS * 1000000 \<le> T)"
proof (induction events arbitrary: T rule: rev_induct)
  case Nil
  show ?case by (simp add: run_Nil initial_def)
next
  case (snoc e es)
  from snoc.prems have srt: "sorted (map event_time es)"
    and le: "\<forall>x \<in> set es. event_time x \<le> event_time e"
    and eT: "event_time e \<le> T"
    by (auto simp: sorted_append)
  from snoc.IH [OF srt le]
  have b: "bot_id \<notin> users_awaiting_response (shared (run bot_id ep es))"
    and n: "user_cooldowns (shared (run bot_id ep es)) bot_id = None"
    and w: "\<And>v t. v \<in> users_awaiting_response (shared (run bot_id ep es)) \<Longrightarrow>
              user_cooldowns (shared (run bot_id ep es)) v = Some t \<Longrightarrow>
              t + COOLDOWN_SECONDS * 1000000 \<le> event_time e"
    by blast+
  have "bot_id \<notin> users_awaiting_response (shared (step bot_id ep (run bot_id ep es) e)) \<and>
         user_cooldowns (shared (step bot_id ep (run bot_id ep es) e)) bot_id = None \<and>
         (\<forall>v t. v \<in> users_awaiting_response (shared (step bot_id ep (run bot_id ep es) e)) \<longrightarrow>
            user_cooldowns (shared (step bot_id ep (run bot_id ep es) e)) v = Some t \<longrightarrow>
            t + COOLDOWN_SECONDS * 1000000 \<le> event_time e)"
    by (rule timed_step [OF in_flight_run b n w]) simp_all
  with eT show ?case by (fastforce simp: run_snoc)
qed

lemma cooldown_window_forward_clock:
  assumes clock: "clock_forward (events @ [Arrive m t2])"
    and trigger: "is_command (content m) \<or> mentions_bot m"
    and entry: "user_cooldowns (shared (run bot_id ep events)) (author m) = Some t1"
    and window: "t2 - t1 < COOLDOWN_SECONDS * 1000000"
  shows "admit bot_id t2 m (shared (run bot_id ep events)) =
           (OnCooldown (remaining_time (t2 - t1)), [CooldownNotice (remaining_time (t2 - t1))],
            shared (run bot_id ep events))"
proof -
  let ?s = "shared (run bot_id ep events)"
  from clock have srt: "sorted (map event_time events)"
    and le: "\<forall>e \<in> set events. event_time e \<le> t2"
    by (auto simp: clock_forward_def sorted_append)
  note inv = timed_run [OF srt le, of bot_id ep]
  from inv entry have a: "author m \<noteq> bot_id" by auto
  have f: "author m \<notin> users_awaiting_response ?s"
  proof
    assume "author m \<in> users_awaiting_response ?s"
    with inv entry have "t1 + COOLDOWN_SECONDS * 1000000 \<le> t2" by blast
    with window show False by simp
  qed
  from entry window
  have "cooldown_remaining t2 (user_cooldowns ?s (author m)) = Some (remaining_time (t2 - t1))"
    by (simp add: cooldown_remaining_Some_iff)
  with a trigger f show ?thesis by (rule admit_cooldown)
qed

text \<open>
  After that exchange the user is inside the cooldown window; a bare \<^verbatim>\<open>!ask\<close> is then
  answered with the cooldown notice, not with the empty-prompt one.
\<close>

theorem empty_prompt_during_cooldown:
  "stripped_content 999 (ask 7 (py ''!ask'')) = [] \<and>
   is_command (content (ask 7 (py ''!ask''))) \<and>
   fst (admit 999 6500000 (ask 7 (py ''!ask'')) (shared (run 999 example_endpoint first_exchange)))
     = OnCooldown (19 / 2) \<and>
   fst (admit 999 6500000 (ask 7 (py ''!ask'')) (shared (run 999 example_endpoint first_exchange)))
     \<noteq> EmptyPrompt"
proof -
  have "fst (admit 999 6500000 (ask 7 (py ''!ask'')) (shared (run 999 example_endpoint first_exchange)))
      = OnCooldown (19 / 2)"
    by (simp add: run_first_exchange admit_def ask_def is_command_take
        cooldown_remaining_Some_iff COOLDOWN_SECONDS_def remaining_after_5_5 py_def)
  moreover have "is_command (content (ask 7 (py ''!ask'')))"
    by (simp add: ask_def is_command_take py_def)
  ultimately show ?thesis
    by (simp add: stripped_bare_command)
qed

end
